theory Spec2Isabelle
  imports Main "HOL-Library.Word" "HOL-Library.Monad_Syntax"
begin

unbundle bit_operations_syntax

section \<open>The runtime class model of package heap\<close>

text \<open>
  The Go code links its objects with pointers: a \<open>*Class\<close> points to its superclass and
  its interfaces, to its \<open>*Field\<close>s and \<open>*Method\<close>s, and a \<open>*MethodRef\<close> caches a
  \<open>*Method\<close>. Several properties are about pointer identity and about who owns which
  storage, so the embedding keeps an explicit store: a pointer is an address, a nil-able
  pointer is an \<open>option\<close> of an address, and every address holds an object (Go has no
  dangling pointers).
\<close>

type_synonym class_ptr = nat
type_synonym method_ptr = nat
type_synonym field_ptr = nat
type_synonym object_ptr = nat
type_synonym slots_ptr = nat
type_synonym ref_ptr = nat

text \<open>
  The panics of the code. The first three are the strings \<open>resolveMethodRef\<close> panics
  with; the next two are the run-time panics of Go itself (a field read through a nil
  pointer, an index outside a slice); the last stands for whatever the class loader
  behind \<open>ResolvedClass\<close> panics with.
\<close>

datatype error =
    IncompatibleClassChangeError
  | NoSuchMethodError
  | IllegalAccessError
  | NilDereference
  | IndexOutOfRange
  | LoaderPanic string

subsection \<open>Access flags\<close>

text \<open>
  Modelled from the spec: the constants \<open>ACC_PUBLIC\<close>, \<open>ACC_STATIC\<close> and
  \<open>ACC_INTERFACE\<close> are declared in a file of the package that is not part of the
  sources at hand (the spec: "access flags (bitmask: public/final/super/interface/...)").
  They carry the values the class-file format fixes for these bits. No result below
  depends on the values.
\<close>

definition ACC_PUBLIC :: "16 word" where
  "ACC_PUBLIC = 0x0001"

definition ACC_STATIC :: "16 word" where
  "ACC_STATIC = 0x0008"

definition ACC_INTERFACE :: "16 word" where
  "ACC_INTERFACE = 0x0200"

subsection \<open>Class members\<close>

text \<open>
  Modelled from the spec: the structs \<open>ClassMember\<close>, \<open>Field\<close> and \<open>Method\<close> and the
  method \<open>IsStatic\<close> are declared in files of the package that are not part of the
  sources at hand. The spec: "member descriptors: name, descriptor string, access flags,
  owning class (non-owning back-reference), and for fields a storage-slot index; methods
  additionally carry static/non-static attribute". \<open>Field\<close> and \<open>Method\<close> embed
  \<open>ClassMember\<close>; a field adds its slot index; \<open>IsStatic\<close> tests the static bit of the
  access flags, the way the predicates of class.go test theirs. Only these components are
  read by the code under study.
\<close>

record ClassMember =
  member_accessFlags :: "16 word"
  member_name :: string
  member_descriptor :: string
  member_class :: class_ptr

record Field = ClassMember +
  slotId :: nat

type_synonym Method = ClassMember

definition member_IsStatic :: "'a ClassMember_scheme \<Rightarrow> bool" where
  "member_IsStatic m = (0 \<noteq> member_accessFlags m AND ACC_STATIC)"

subsection \<open>Classes\<close>

record Class =
  accessFlags :: "16 word"
  name :: string
  superClassName :: string
  interfaceNames :: "string list"
  class_fields :: "field_ptr list"
  methods :: "method_ptr list"
  superClass :: "class_ptr option"
  interfaces :: "class_ptr list"
  InstanceSlotCount :: nat
  staticSlotCount :: nat
  staticVars :: "slots_ptr option"
  initStarted :: bool
  jClass :: "object_ptr option"
  sourceFile :: string

subsection \<open>Slots\<close>

text \<open>
  A slot holds a number and a reference. \<open>Slots\<close> is a Go slice of slots: the \<open>Class\<close>
  struct holds the slice header, the slots themselves live in a backing array on the heap.
  The header is modelled as the address of the backing array, \<open>None\<close> for the nil slice
  (which has no slot at all).
\<close>

record Slot =
  num :: "32 word"
  ref :: "object_ptr option"

subsection \<open>Method references\<close>

text \<open>
  A \<open>MethodRef\<close> embeds \<open>MemberRef\<close>, which embeds \<open>SymRef\<close>. Of the constant pool
  \<open>cp\<close> only \<open>cp.class\<close> is read, so the reference records that class directly.
\<close>

record MethodRef =
  cp_class :: class_ptr
  className :: string
  ref_class :: "class_ptr option"
  ref_name :: string
  ref_descriptor :: string
  ref_method :: "method_ptr option"

subsection \<open>The store\<close>

record heap =
  classes :: "class_ptr \<Rightarrow> Class"
  methodObjs :: "method_ptr \<Rightarrow> Method"
  fieldObjs :: "field_ptr \<Rightarrow> Field"
  slotArrays :: "slots_ptr \<Rightarrow> Slot list"
  methodRefs :: "ref_ptr \<Rightarrow> MethodRef"

section \<open>class.go\<close>

definition IsPublic :: "Class \<Rightarrow> bool" where
  "IsPublic c = (0 \<noteq> accessFlags c AND ACC_PUBLIC)"

definition IsInterface :: "Class \<Rightarrow> bool" where
  "IsInterface c = (0 \<noteq> accessFlags c AND ACC_INTERFACE)"

subsection \<open>IsSubClassOf\<close>

text \<open>
  \<^verbatim>\<open>for c := self.superClass; c != nil; c = c.superClass { if c == other { return true } }\<close>
  \<^verbatim>\<open>return false\<close>
  The loop follows pointers of the store and need not end (nothing in the types forbids
  a class graph with a cycle), so it lives in the option monad: \<open>None\<close> is a run that
  never returns.
\<close>

partial_function (option) superClassLoop :: "heap \<Rightarrow> class_ptr option \<Rightarrow> class_ptr \<Rightarrow> bool option" where
  "superClassLoop h c other =
     (case c of
        None \<Rightarrow> Some False
      | Some p \<Rightarrow> if p = other then Some True
                  else superClassLoop h (superClass (classes h p)) other)"

definition IsSubClassOf :: "heap \<Rightarrow> class_ptr \<Rightarrow> class_ptr \<Rightarrow> bool option" where
  "IsSubClassOf h self other = superClassLoop h (superClass (classes h self)) other"

definition IsSuperClassOf :: "heap \<Rightarrow> class_ptr \<Rightarrow> class_ptr \<Rightarrow> bool option" where
  "IsSuperClassOf h self other = IsSubClassOf h other self"

text \<open>
  The superclass chain, as the spec speaks of it: \<open>superChain h c cs\<close> says that following
  \<open>superClass\<close> from the (nil-able) pointer \<open>c\<close> visits exactly the classes \<open>cs\<close>, in
  this order, and then reaches nil.
\<close>

fun superChain :: "heap \<Rightarrow> class_ptr option \<Rightarrow> class_ptr list \<Rightarrow> bool" where
  "superChain h c [] = (c = None)"
| "superChain h c (x # xs) = (c = Some x \<and> superChain h (superClass (classes h x)) xs)"

text \<open>The edge relation of the superclass pointers.\<close>

definition superEdge :: "heap \<Rightarrow> (class_ptr \<times> class_ptr) set" where
  "superEdge h = {(c, p). superClass (classes h c) = Some p}"

subsection \<open>GetPackageName and isAccessibleTo\<close>

text \<open>
  Go's \<open>strings.LastIndex(s, "/")\<close> for a separator of one byte: the index of the last
  occurrence of the separator in \<open>s\<close>, or \<open>-1\<close> when there is none.
\<close>

fun LastIndex :: "string \<Rightarrow> char \<Rightarrow> int" where
  "LastIndex [] sep = - 1"
| "LastIndex (x # xs) sep =
     (let i = LastIndex xs sep
      in if 0 \<le> i then i + 1 else if x = sep then 0 else - 1)"

definition GetPackageName :: "Class \<Rightarrow> string" where
  "GetPackageName c =
     (let i = LastIndex (name c) (CHR ''/'')
      in if i \<ge> 0 then take (nat i) (name c) else [])"

definition isAccessibleTo :: "heap \<Rightarrow> class_ptr \<Rightarrow> class_ptr \<Rightarrow> bool" where
  "isAccessibleTo h self other =
     (IsPublic (classes h self)
      \<or> GetPackageName (classes h self) = GetPackageName (classes h other))"

subsection \<open>getMethod, getField, getStaticMethod\<close>

text \<open>
  The inner loops run over a method or field table and return at the first entry that
  passes the test, which is \<^const>\<open>find\<close>. The outer loop follows the superclass
  pointers, like the one of \<open>IsSubClassOf\<close>; nil as a result is \<open>None\<close>.
\<close>

partial_function (option) getMethodLoop ::
  "heap \<Rightarrow> class_ptr option \<Rightarrow> string \<Rightarrow> string \<Rightarrow> bool \<Rightarrow> method_ptr option option" where
  "getMethodLoop h c nm descriptor isStatic =
     (case c of
        None \<Rightarrow> Some None
      | Some p \<Rightarrow>
          (case find (\<lambda>method. member_IsStatic (methodObjs h method) = isStatic
                          \<and> member_name (methodObjs h method) = nm
                          \<and> member_descriptor (methodObjs h method) = descriptor)
                     (methods (classes h p)) of
             Some method \<Rightarrow> Some (Some method)
           | None \<Rightarrow> getMethodLoop h (superClass (classes h p)) nm descriptor isStatic))"

definition getMethod ::
  "heap \<Rightarrow> class_ptr \<Rightarrow> string \<Rightarrow> string \<Rightarrow> bool \<Rightarrow> method_ptr option option" where
  "getMethod h self nm descriptor isStatic = getMethodLoop h (Some self) nm descriptor isStatic"

definition GetInstanceMethod ::
  "heap \<Rightarrow> class_ptr \<Rightarrow> string \<Rightarrow> string \<Rightarrow> method_ptr option option" where
  "GetInstanceMethod h self nm descriptor = getMethod h self nm descriptor False"

partial_function (option) getFieldLoop ::
  "heap \<Rightarrow> class_ptr option \<Rightarrow> string \<Rightarrow> string \<Rightarrow> bool \<Rightarrow> field_ptr option option" where
  "getFieldLoop h c nm descriptor isStatic =
     (case c of
        None \<Rightarrow> Some None
      | Some p \<Rightarrow>
          (case find (\<lambda>field. member_IsStatic (fieldObjs h field) = isStatic
                         \<and> member_name (fieldObjs h field) = nm
                         \<and> member_descriptor (fieldObjs h field) = descriptor)
                     (class_fields (classes h p)) of
             Some field \<Rightarrow> Some (Some field)
           | None \<Rightarrow> getFieldLoop h (superClass (classes h p)) nm descriptor isStatic))"

definition getField ::
  "heap \<Rightarrow> class_ptr \<Rightarrow> string \<Rightarrow> string \<Rightarrow> bool \<Rightarrow> field_ptr option option" where
  "getField h self nm descriptor isStatic = getFieldLoop h (Some self) nm descriptor isStatic"

definition getStaticMethod :: "heap \<Rightarrow> class_ptr \<Rightarrow> string \<Rightarrow> string \<Rightarrow> method_ptr option" where
  "getStaticMethod h self nm descriptor =
     find (\<lambda>method. member_IsStatic (methodObjs h method)
                \<and> member_name (methodObjs h method) = nm
                \<and> member_descriptor (methodObjs h method) = descriptor)
          (methods (classes h self))"

definition GetMainMethod :: "heap \<Rightarrow> class_ptr \<Rightarrow> method_ptr option" where
  "GetMainMethod h self = getStaticMethod h self ''main'' ''([Ljava/lang/String;)V''"

definition GetClinitMethod :: "heap \<Rightarrow> class_ptr \<Rightarrow> method_ptr option" where
  "GetClinitMethod h self = getStaticMethod h self ''<clinit>'' ''()V''"

subsection \<open>GetRefVar and SetRefVar\<close>

text \<open>
  Modelled from the spec: the methods \<open>GetRef\<close> and \<open>SetRef\<close> of \<open>Slots\<close> are declared in
  a file of the package that is not part of the sources at hand. The spec calls the type a
  "fixed-capacity indexed storage for primitive and reference-typed values" with "get/set
  operations": \<open>GetRef\<close> reads the reference of the slot at an index, \<open>SetRef\<close> overwrites
  it and leaves the slot's number alone, and an index outside the capacity has no slot to
  read or write, which in Go is the index-out-of-range panic.
\<close>

definition Slots_GetRef :: "heap \<Rightarrow> slots_ptr option \<Rightarrow> nat \<Rightarrow> error + object_ptr option" where
  "Slots_GetRef h s i =
     (case s of
        None \<Rightarrow> Inl IndexOutOfRange
      | Some a \<Rightarrow> if i < length (slotArrays h a) then Inr (ref (slotArrays h a ! i))
                  else Inl IndexOutOfRange)"

definition Slots_SetRef ::
  "heap \<Rightarrow> slots_ptr option \<Rightarrow> nat \<Rightarrow> object_ptr option \<Rightarrow> error option \<times> heap" where
  "Slots_SetRef h s i r =
     (case s of
        None \<Rightarrow> (Some IndexOutOfRange, h)
      | Some a \<Rightarrow>
          if i < length (slotArrays h a)
          then (None, h\<lparr>slotArrays := (slotArrays h)
                         (a := (slotArrays h a)[i := (slotArrays h a ! i)\<lparr>ref := r\<rparr>])\<rparr>)
          else (Some IndexOutOfRange, h))"

text \<open>
  \<^verbatim>\<open>field := self.getField(fieldName, fieldDescriptor, true)\<close>
  \<^verbatim>\<open>return self.staticVars.GetRef(field.slotId)\<close>
  \<open>field.slotId\<close> with a nil \<open>field\<close> is Go's nil-pointer panic.
\<close>

definition GetRefVar ::
  "heap \<Rightarrow> class_ptr \<Rightarrow> string \<Rightarrow> string \<Rightarrow> (error + object_ptr option) option" where
  "GetRefVar h self fieldName fieldDescriptor =
     do {
       field \<leftarrow> getField h self fieldName fieldDescriptor True;
       Some (case field of
               None \<Rightarrow> Inl NilDereference
             | Some f \<Rightarrow> Slots_GetRef h (staticVars (classes h self)) (slotId (fieldObjs h f)))
     }"

definition SetRefVar ::
  "heap \<Rightarrow> class_ptr \<Rightarrow> string \<Rightarrow> string \<Rightarrow> object_ptr option \<Rightarrow> (error option \<times> heap) option" where
  "SetRefVar h self fieldName fieldDescriptor r =
     do {
       field \<leftarrow> getField h self fieldName fieldDescriptor True;
       Some (case field of
               None \<Rightarrow> (Some NilDereference, h)
             | Some f \<Rightarrow> Slots_SetRef h (staticVars (classes h self)) (slotId (fieldObjs h f)) r)
     }"

section \<open>cp\_methodref.go\<close>

subsection \<open>Method lookup\<close>

partial_function (option) LookupMethodInClassLoop ::
  "heap \<Rightarrow> class_ptr option \<Rightarrow> string \<Rightarrow> string \<Rightarrow> method_ptr option option" where
  "LookupMethodInClassLoop h c nm descriptor =
     (case c of
        None \<Rightarrow> Some None
      | Some p \<Rightarrow>
          (case find (\<lambda>method. member_name (methodObjs h method) = nm
                          \<and> member_descriptor (methodObjs h method) = descriptor)
                     (methods (classes h p)) of
             Some method \<Rightarrow> Some (Some method)
           | None \<Rightarrow> LookupMethodInClassLoop h (superClass (classes h p)) nm descriptor))"

definition LookupMethodInClass ::
  "heap \<Rightarrow> class_ptr \<Rightarrow> string \<Rightarrow> string \<Rightarrow> method_ptr option option" where
  "LookupMethodInClass h cls nm descriptor = LookupMethodInClassLoop h (Some cls) nm descriptor"

text \<open>
  \<open>lookupMethodInInterface\<close> loops over \<open>ifaces\<close>; for each interface it scans the
  interface's own methods, then calls itself on the interface's own interfaces, and goes
  on to the next element only when both found nothing. The recursion follows pointers of
  the store, so it too lives in the option monad.
\<close>

partial_function (option) lookupMethodInInterface ::
  "heap \<Rightarrow> class_ptr list \<Rightarrow> string \<Rightarrow> string \<Rightarrow> method_ptr option option" where
  "lookupMethodInInterface h ifaces nm descriptor =
     (case ifaces of
        [] \<Rightarrow> Some None
      | iface # rest \<Rightarrow>
          (case find (\<lambda>method. member_name (methodObjs h method) = nm
                          \<and> member_descriptor (methodObjs h method) = descriptor)
                     (methods (classes h iface)) of
             Some method \<Rightarrow> Some (Some method)
           | None \<Rightarrow>
               do {
                 method \<leftarrow> lookupMethodInInterface h (interfaces (classes h iface)) nm descriptor;
                 case method of
                   Some m \<Rightarrow> Some (Some m)
                 | None \<Rightarrow> lookupMethodInInterface h rest nm descriptor
               }))"

definition lookupMethod ::
  "heap \<Rightarrow> class_ptr \<Rightarrow> string \<Rightarrow> string \<Rightarrow> method_ptr option option" where
  "lookupMethod h cls nm descriptor =
     do {
       method \<leftarrow> LookupMethodInClass h cls nm descriptor;
       case method of
         Some m \<Rightarrow> Some (Some m)
       | None \<Rightarrow> lookupMethodInInterface h (interfaces (classes h cls)) nm descriptor
     }"

subsection \<open>Resolution\<close>

text \<open>
  Two callees of \<open>resolveMethodRef\<close> are declared in files of the package that are not
  part of the sources at hand, and are parameters of the model:
  \<^item> \<open>self.ResolvedClass()\<close>, which loads the class named by the reference through the
    class loader (and may panic, and may change the store on the way): a function from the
    store and the reference to the class or the panic, and the store it leaves;
  \<^item> \<open>method.isAccessibleTo(d)\<close>, the access check of a class member: a predicate on the
    store, the method and the accessing class.

  A Go panic unwinds the call but keeps every write made before it, so a failed
  resolution returns the panic together with the store it leaves.
\<close>

type_synonym class_resolver = "heap \<Rightarrow> ref_ptr \<Rightarrow> (error + class_ptr) \<times> heap"
type_synonym member_access = "heap \<Rightarrow> method_ptr \<Rightarrow> class_ptr \<Rightarrow> bool"

definition set_ref_method :: "heap \<Rightarrow> ref_ptr \<Rightarrow> method_ptr option \<Rightarrow> heap" where
  "set_ref_method h self m =
     h\<lparr>methodRefs := (methodRefs h)(self := (methodRefs h self)\<lparr>ref_method := m\<rparr>)\<rparr>"

definition resolveMethodRef ::
  "class_resolver \<Rightarrow> member_access \<Rightarrow> heap \<Rightarrow> ref_ptr \<Rightarrow> (error option \<times> heap) option" where
  "resolveMethodRef ResolvedClass member_isAccessibleTo h self =
     (let d = cp_class (methodRefs h self)
      in case ResolvedClass h self of
           (Inl e, h1) \<Rightarrow> Some (Some e, h1)
         | (Inr c, h1) \<Rightarrow>
             if IsInterface (classes h1 c) then Some (Some IncompatibleClassChangeError, h1)
             else do {
               method \<leftarrow> lookupMethod h1 c (ref_name (methodRefs h1 self))
                                        (ref_descriptor (methodRefs h1 self));
               Some (case method of
                       None \<Rightarrow> (Some NoSuchMethodError, h1)
                     | Some m \<Rightarrow>
                         if \<not> member_isAccessibleTo h1 m d then (Some IllegalAccessError, h1)
                         else (None, set_ref_method h1 self (Some m)))
             })"

text \<open>
  \<^verbatim>\<open>if self.method == nil { self.resolveMethodRef() }\<close>
  \<^verbatim>\<open>return self.method\<close>
\<close>

definition ResolvedMethod ::
  "class_resolver \<Rightarrow> member_access \<Rightarrow> heap \<Rightarrow> ref_ptr
   \<Rightarrow> ((error + method_ptr option) \<times> heap) option" where
  "ResolvedMethod ResolvedClass member_isAccessibleTo h self =
     (if ref_method (methodRefs h self) = None
      then do {
        (e, h1) \<leftarrow> resolveMethodRef ResolvedClass member_isAccessibleTo h self;
        Some (case e of
                Some err \<Rightarrow> (Inl err, h1)
              | None \<Rightarrow> (Inr (ref_method (methodRefs h1 self)), h1))
      }
      else Some (Inr (ref_method (methodRefs h self)), h))"

section \<open>The search orders of the spec\<close>

text \<open>
  The order in which the interfaces of a class are searched, as the spec words it: each
  interface in turn, the interface itself before its super-interfaces, these depth-first.
  \<open>ifaceOrder h ifaces out\<close> says that this walk from the list \<open>ifaces\<close> ends and visits
  the interfaces \<open>out\<close>, in this order.
\<close>

inductive ifaceOrder :: "heap \<Rightarrow> class_ptr list \<Rightarrow> class_ptr list \<Rightarrow> bool" where
  ifaceOrder_Nil: "ifaceOrder h [] []"
| ifaceOrder_Cons:
    "ifaceOrder h (interfaces (classes h iface)) supers \<Longrightarrow> ifaceOrder h rest others
     \<Longrightarrow> ifaceOrder h (iface # rest) (iface # supers @ others)"

text \<open>The method tables of a list of classes, one after the other.\<close>

definition methodsOf :: "heap \<Rightarrow> class_ptr list \<Rightarrow> method_ptr list" where
  "methodsOf h cs = concat (map (\<lambda>c. methods (classes h c)) cs)"

definition fieldsOf :: "heap \<Rightarrow> class_ptr list \<Rightarrow> field_ptr list" where
  "fieldsOf h cs = concat (map (\<lambda>c. class_fields (classes h c)) cs)"

section \<open>Example stores\<close>

text \<open>Go's zero values of the structs.\<close>

definition zeroClass :: Class where
  "zeroClass = \<lparr>accessFlags = 0, name = [], superClassName = [], interfaceNames = [],
     class_fields = [], methods = [], superClass = None, interfaces = [],
     InstanceSlotCount = 0, staticSlotCount = 0, staticVars = None, initStarted = False,
     jClass = None, sourceFile = []\<rparr>"

definition zeroMethod :: Method where
  "zeroMethod = \<lparr>member_accessFlags = 0, member_name = [], member_descriptor = [],
     member_class = 0\<rparr>"

definition zeroField :: Field where
  "zeroField = \<lparr>member_accessFlags = 0, member_name = [], member_descriptor = [],
     member_class = 0, slotId = 0\<rparr>"

definition zeroMethodRef :: MethodRef where
  "zeroMethodRef = \<lparr>cp_class = 0, className = [], ref_class = None, ref_name = [],
     ref_descriptor = [], ref_method = None\<rparr>"

text \<open>
  A small class graph. Class 1 is \<open>p/A\<close>, a root class with a static \<open>main\<close>, an instance
  method \<open>run\<close>, a static initialiser and one static reference field \<open>out\<close> in slot 0 of
  its own one-slot storage. Class 2 is \<open>q/B\<close>, which extends class 1, implements
  interface 3, declares a static \<open>run\<close> and an instance \<open>go\<close> and has no static field, so
  its static storage is the nil slice. Interface 3 (\<open>q/I\<close>) declares \<open>hello\<close> and extends
  interface 4 (\<open>q/J\<close>), which declares \<open>hello\<close> and \<open>deep\<close>. Class 5 is a second class
  object with the name of class 1. Classes 6 (\<open>Main\<close>) and 7 (\<open>Util\<close>) are not public
  and have no package. Class 8 is \<open>p/C\<close>, which extends class 1 and has one static
  reference field \<open>err\<close> of its own, in slot 0 of its own one-slot storage. Method reference 40, in the constant pool of class 2,
  names \<open>q/B.deep\<close>; reference 41 names \<open>q/I.hello\<close>; reference 42 names \<open>q/B.none\<close>.
\<close>

definition exClasses :: "class_ptr \<Rightarrow> Class" where
  "exClasses = (\<lambda>_. zeroClass)
     (1 := zeroClass\<lparr>accessFlags := 0x0021, name := ''p/A'', class_fields := [20],
                    methods := [10, 11, 12], staticSlotCount := 1, staticVars := Some 31\<rparr>,
      2 := zeroClass\<lparr>accessFlags := 0x0020, name := ''q/B'', superClassName := ''p/A'',
                    interfaceNames := [''q/I''], methods := [13, 17], superClass := Some 1,
                    interfaces := [3]\<rparr>,
      3 := zeroClass\<lparr>accessFlags := 0x0601, name := ''q/I'', interfaceNames := [''q/J''],
                    methods := [14], interfaces := [4]\<rparr>,
      4 := zeroClass\<lparr>accessFlags := 0x0601, name := ''q/J'', methods := [15, 16]\<rparr>,
      5 := zeroClass\<lparr>accessFlags := 0x0021, name := ''p/A''\<rparr>,
      6 := zeroClass\<lparr>accessFlags := 0x0020, name := ''Main''\<rparr>,
      7 := zeroClass\<lparr>accessFlags := 0x0020, name := ''Util''\<rparr>,
      8 := zeroClass\<lparr>accessFlags := 0x0021, name := ''p/C'', superClassName := ''p/A'',
                    class_fields := [21], superClass := Some 1, staticSlotCount := 1,
                    staticVars := Some 33\<rparr>)"

definition exMethods :: "method_ptr \<Rightarrow> Method" where
  "exMethods = (\<lambda>_. zeroMethod)
     (10 := \<lparr>member_accessFlags = 0x0009, member_name = ''main'',
             member_descriptor = ''([Ljava/lang/String;)V'', member_class = 1\<rparr>,
      11 := \<lparr>member_accessFlags = 0x0001, member_name = ''run'',
             member_descriptor = ''()V'', member_class = 1\<rparr>,
      12 := \<lparr>member_accessFlags = 0x0008, member_name = ''<clinit>'',
             member_descriptor = ''()V'', member_class = 1\<rparr>,
      13 := \<lparr>member_accessFlags = 0x0009, member_name = ''run'',
             member_descriptor = ''()V'', member_class = 2\<rparr>,
      14 := \<lparr>member_accessFlags = 0x0001, member_name = ''hello'',
             member_descriptor = ''()V'', member_class = 3\<rparr>,
      15 := \<lparr>member_accessFlags = 0x0001, member_name = ''hello'',
             member_descriptor = ''()V'', member_class = 4\<rparr>,
      16 := \<lparr>member_accessFlags = 0x0001, member_name = ''deep'',
             member_descriptor = ''()V'', member_class = 4\<rparr>,
      17 := \<lparr>member_accessFlags = 0x0001, member_name = ''go'',
             member_descriptor = ''()V'', member_class = 2\<rparr>)"

definition exFields :: "field_ptr \<Rightarrow> Field" where
  "exFields = (\<lambda>_. zeroField)
     (20 := \<lparr>member_accessFlags = 0x0009, member_name = ''out'',
             member_descriptor = ''Ljava/io/PrintStream;'', member_class = 1, slotId = 0\<rparr>,
      21 := \<lparr>member_accessFlags = 0x0009, member_name = ''err'',
             member_descriptor = ''Ljava/io/PrintStream;'', member_class = 8, slotId = 0\<rparr>)"

definition exSlots :: "slots_ptr \<Rightarrow> Slot list" where
  "exSlots = (\<lambda>_. [])(31 := [\<lparr>num = 7, ref = Some 51\<rparr>], 33 := [\<lparr>num = 0, ref = Some 50\<rparr>])"

definition exRefs :: "ref_ptr \<Rightarrow> MethodRef" where
  "exRefs = (\<lambda>_. zeroMethodRef)
     (40 := \<lparr>cp_class = 2, className = ''q/B'', ref_class = None, ref_name = ''deep'',
             ref_descriptor = ''()V'', ref_method = None\<rparr>,
      41 := \<lparr>cp_class = 2, className = ''q/I'', ref_class = None, ref_name = ''hello'',
             ref_descriptor = ''()V'', ref_method = None\<rparr>,
      42 := \<lparr>cp_class = 2, className = ''q/B'', ref_class = None, ref_name = ''none'',
             ref_descriptor = ''()V'', ref_method = None\<rparr>)"

definition exHeap :: heap where
  "exHeap = \<lparr>classes = exClasses, methodObjs = exMethods, fieldObjs = exFields,
              slotArrays = exSlots, methodRefs = exRefs\<rparr>"

text \<open>
  Stand-ins for the two callees of \<open>resolveMethodRef\<close> that the model takes as
  parameters, for the examples: a \<open>ResolvedClass\<close> that returns the class cached on the
  reference or else finds the class by name in a fixed registry and caches it, and a member
  access check that lets public members and members of the accessing class's package
  through.
\<close>

definition set_ref_class :: "heap \<Rightarrow> ref_ptr \<Rightarrow> class_ptr option \<Rightarrow> heap" where
  "set_ref_class h r c =
     h\<lparr>methodRefs := (methodRefs h)(r := (methodRefs h r)\<lparr>ref_class := c\<rparr>)\<rparr>"

definition exRegistry :: "string \<Rightarrow> class_ptr option" where
  "exRegistry = [''p/A'' \<mapsto> 1, ''q/B'' \<mapsto> 2, ''q/I'' \<mapsto> 3, ''q/J'' \<mapsto> 4]"

definition exResolvedClass :: class_resolver where
  "exResolvedClass h r =
     (case ref_class (methodRefs h r) of
        Some c \<Rightarrow> (Inr c, h)
      | None \<Rightarrow>
          (case exRegistry (className (methodRefs h r)) of
             None \<Rightarrow> (Inl (LoaderPanic ''java.lang.ClassNotFoundException''), h)
           | Some c \<Rightarrow>
               (Inr c, set_ref_class h r (Some c))))"

definition exMemberAccess :: member_access where
  "exMemberAccess h m d =
     (0 \<noteq> member_accessFlags (methodObjs h m) AND ACC_PUBLIC
      \<or> GetPackageName (classes h (member_class (methodObjs h m))) = GetPackageName (classes h d))"

text \<open>
  The example store after \<open>exResolvedClass\<close> has cached the class of reference 40, 41 or
  42, and the one in which reference 40 is resolved to method 16.
\<close>

definition exHeap40 :: heap where
  "exHeap40 = set_ref_class exHeap 40 (Some 2)"

definition exHeap41 :: heap where
  "exHeap41 = set_ref_class exHeap 41 (Some 3)"

definition exHeap42 :: heap where
  "exHeap42 = set_ref_class exHeap 42 (Some 2)"

definition exHeapResolved :: heap where
  "exHeapResolved = set_ref_method exHeap40 40 (Some 16)"

section \<open>Properties of class.go\<close>

subsection \<open>IsSubClassOf\<close>

lemma superClassLoop_chain:
  "superChain h c cs \<Longrightarrow> superClassLoop h c other = Some (other \<in> set cs)"
proof (induction cs arbitrary: c)
  case Nil
  then show ?case by (simp add: superClassLoop.simps)
next
  case (Cons x xs)
  then have c: "c = Some x" and rest: "superChain h (superClass (classes h x)) xs" by simp_all
  show ?case
    using Cons.IH [OF rest] c by (subst superClassLoop.simps) auto
qed

lemma superClassLoop_reach:
  "(p, other) \<in> (superEdge h)\<^sup>* \<Longrightarrow> superClassLoop h (Some p) other = Some True"
proof (induction rule: converse_rtrancl_induct)
  case base
  show ?case by (subst superClassLoop.simps) simp
next
  case (step y z)
  then have "superClass (classes h y) = Some z" by (simp add: superEdge_def)
  with step.IH show ?case by (subst superClassLoop.simps) simp
qed

lemma superClassLoop_True:
  assumes "superClassLoop h c other = Some True"
  shows "\<exists>p. c = Some p \<and> (p, other) \<in> (superEdge h)\<^sup>*"
proof -
  have "b \<longrightarrow> (\<exists>p. c = Some p \<and> (p, other) \<in> (superEdge h)\<^sup>*)"
    if "superClassLoop h c other = Some b" for b
  proof (rule superClassLoop.raw_induct
      [where P = "\<lambda>h c other b. b \<longrightarrow> (\<exists>p. c = Some p \<and> (p, other) \<in> (superEdge h)\<^sup>*)", OF _ that],
      goal_cases)
    case (1 loop h c other b)
    show ?case
    proof (cases c)
      case None
      with 1(2) show ?thesis by auto
    next
      case (Some p)
      show ?thesis
      proof (cases "p = other")
        case True
        with Some show ?thesis by simp
      next
        case False
        with 1(2) Some have run: "loop h (superClass (classes h p)) other = Some b" by simp
        show ?thesis
        proof
          assume b
          with 1(1) [OF run] obtain q where q: "superClass (classes h p) = Some q"
            and r: "(q, other) \<in> (superEdge h)\<^sup>*" by auto
          from q have "(p, q) \<in> superEdge h" by (simp add: superEdge_def)
          from this r have "(p, other) \<in> (superEdge h)\<^sup>*" by (rule converse_rtrancl_into_rtrancl)
          with Some show "\<exists>p. c = Some p \<and> (p, other) \<in> (superEdge h)\<^sup>*" by simp
        qed
      qed
    qed
  qed
  with assms show ?thesis by simp
qed

lemma superEdge_trancl:
  "(C, D) \<in> (superEdge h)\<^sup>+ \<longleftrightarrow>
     (\<exists>p. superClass (classes h C) = Some p \<and> (p, D) \<in> (superEdge h)\<^sup>*)"
proof
  assume "(C, D) \<in> (superEdge h)\<^sup>+"
  then obtain p where "(C, p) \<in> superEdge h" and "(p, D) \<in> (superEdge h)\<^sup>*"
    by (blast dest: tranclD)
  then show "\<exists>p. superClass (classes h C) = Some p \<and> (p, D) \<in> (superEdge h)\<^sup>*"
    by (auto simp: superEdge_def)
next
  assume "\<exists>p. superClass (classes h C) = Some p \<and> (p, D) \<in> (superEdge h)\<^sup>*"
  then obtain p where "(C, p) \<in> superEdge h" and "(p, D) \<in> (superEdge h)\<^sup>*"
    by (auto simp: superEdge_def)
  then show "(C, D) \<in> (superEdge h)\<^sup>+" by (rule rtrancl_into_trancl2)
qed

lemma superChain_set:
  "superChain h c cs \<Longrightarrow> set cs = {D. \<exists>p. c = Some p \<and> (p, D) \<in> (superEdge h)\<^sup>*}"
proof (induction cs arbitrary: c)
  case Nil
  then show ?case by simp
next
  case (Cons x xs)
  then have c: "c = Some x" and rest: "superChain h (superClass (classes h x)) xs" by simp_all
  have "(x, D) \<in> (superEdge h)\<^sup>* \<longleftrightarrow> D = x \<or> (x, D) \<in> (superEdge h)\<^sup>+" for D
    by (auto simp: rtrancl_eq_or_trancl)
  then show ?case
    using Cons.IH [OF rest] c by (auto simp: superEdge_trancl)
qed

text \<open>
  Claim C5. \<open>C.IsSubClassOf(D)\<close> returns true exactly when \<open>D\<close> is reached from \<open>C\<close> by one
  or more steps along the superclass pointers, compared as pointers. When the superclass
  chain of \<open>C\<close> ends (is the list \<open>cs\<close>), the call returns, with the answer whether \<open>D\<close> is
  one of \<open>cs\<close>, which are exactly the classes so reached; hence \<open>C.IsSubClassOf(C)\<close> is
  false when \<open>C\<close> is not in its own chain.
\<close>

theorem IsSubClassOf_strict_chain:
  "(IsSubClassOf h C D = Some True \<longleftrightarrow> (C, D) \<in> (superEdge h)\<^sup>+)
   \<and> (superChain h (superClass (classes h C)) cs \<longrightarrow>
        IsSubClassOf h C D = Some (D \<in> set cs)
        \<and> set cs = {E. (C, E) \<in> (superEdge h)\<^sup>+}
        \<and> (C \<notin> set cs \<longrightarrow> IsSubClassOf h C C = Some False))"
proof (intro conjI impI)
  show "IsSubClassOf h C D = Some True \<longleftrightarrow> (C, D) \<in> (superEdge h)\<^sup>+"
    unfolding IsSubClassOf_def superEdge_trancl
    using superClassLoop_True [of h "superClass (classes h C)" D] superClassLoop_reach [of _ D h]
    by auto
next
  assume ch: "superChain h (superClass (classes h C)) cs"
  then show "IsSubClassOf h C D = Some (D \<in> set cs)"
    by (simp add: IsSubClassOf_def superClassLoop_chain)
  from ch show "set cs = {E. (C, E) \<in> (superEdge h)\<^sup>+}"
    by (simp add: superChain_set superEdge_trancl)
  assume "C \<notin> set cs"
  with ch show "IsSubClassOf h C C = Some False"
    by (simp add: IsSubClassOf_def superClassLoop_chain)
qed

theorem IsSubClassOf_strict_chain_witness:
  "superChain exHeap (superClass (classes exHeap 2)) [1]
   \<and> IsSubClassOf exHeap 2 1 = Some True
   \<and> IsSubClassOf exHeap 1 2 = Some False
   \<and> IsSubClassOf exHeap 2 2 = Some False
   \<and> IsSubClassOf exHeap 2 5 = Some False
   \<and> name (classes exHeap 5) = name (classes exHeap 1)"
proof -
  have ch2: "superChain exHeap (superClass (classes exHeap 2)) [1]"
    by (simp add: exHeap_def exClasses_def zeroClass_def)
  have ch1: "superChain exHeap (superClass (classes exHeap 1)) []"
    by (simp add: exHeap_def exClasses_def zeroClass_def)
  have nm: "name (classes exHeap 5) = name (classes exHeap 1)"
    by (simp add: exHeap_def exClasses_def zeroClass_def)
  have a: "IsSubClassOf exHeap 2 D = Some (D \<in> set [1])" for D
    using IsSubClassOf_strict_chain [of exHeap 2 D "[1]"] ch2 by blast
  have b: "2 \<notin> set [1::nat] \<longrightarrow> IsSubClassOf exHeap 2 2 = Some False"
    using IsSubClassOf_strict_chain [of exHeap 2 2 "[1]"] ch2 by blast
  have c: "IsSubClassOf exHeap 1 D = Some (D \<in> set [])" for D
    using IsSubClassOf_strict_chain [of exHeap 1 D "[]"] ch1 by blast
  show ?thesis
    using a [of 1] a [of 5] b c [of 2] ch2 nm by simp
qed

subsection \<open>GetPackageName and isAccessibleTo\<close>

lemma LastIndex_absent: "sep \<notin> set s \<Longrightarrow> LastIndex s sep = - 1"
  by (induction s) (auto simp: Let_def)

lemma LastIndex_present:
  "sep \<in> set s \<Longrightarrow>
     0 \<le> LastIndex s sep \<and> nat (LastIndex s sep) < length s
     \<and> s ! nat (LastIndex s sep) = sep
     \<and> sep \<notin> set (drop (Suc (nat (LastIndex s sep))) s)"
proof (induction s)
  case Nil
  then show ?case by simp
next
  case (Cons x xs)
  show ?case
  proof (cases "sep \<in> set xs")
    case True
    from Cons.IH [OF True] have i: "0 \<le> LastIndex xs sep" by simp
    then have n: "nat (LastIndex xs sep + 1) = Suc (nat (LastIndex xs sep))" by simp
    from Cons.IH [OF True] i show ?thesis by (simp add: Let_def n)
  next
    case False
    with Cons.prems have "x = sep" by simp
    with False show ?thesis by (simp add: Let_def LastIndex_absent)
  qed
qed

lemma GetPackageName_absent:
  "CHR ''/'' \<notin> set (name c) \<Longrightarrow> GetPackageName c = []"
  by (simp add: GetPackageName_def LastIndex_absent)

lemma GetPackageName_present:
  assumes "CHR ''/'' \<in> set (name c)"
  shows "\<exists>rest. name c = GetPackageName c @ CHR ''/'' # rest \<and> CHR ''/'' \<notin> set rest"
proof -
  from LastIndex_present [OF assms]
  have i: "0 \<le> LastIndex (name c) (CHR ''/'')"
    and len: "nat (LastIndex (name c) (CHR ''/'')) < length (name c)"
    and at: "name c ! nat (LastIndex (name c) (CHR ''/'')) = CHR ''/''"
    and after: "CHR ''/'' \<notin> set (drop (Suc (nat (LastIndex (name c) (CHR ''/'')))) (name c))"
    by simp_all
  from i have pkg: "GetPackageName c = take (nat (LastIndex (name c) (CHR ''/''))) (name c)"
    by (simp add: GetPackageName_def)
  from id_take_nth_drop [OF len] at pkg
  have "name c = GetPackageName c @ CHR ''/'' # drop (Suc (nat (LastIndex (name c) (CHR ''/'')))) (name c)"
    by simp
  with after show ?thesis by blast
qed

text \<open>
  Claim C6. \<open>C.isAccessibleTo(D)\<close> is true exactly when \<open>C\<close> is public or the package names
  of \<open>C\<close> and \<open>D\<close> are equal. The package name of a class whose name has no slash is empty;
  otherwise the name is the package name, a slash, and a rest without slash, that is, the
  package name is the part of the name before its last slash. Hence two classes whose
  names have no slash are accessible to each other, public or not.
\<close>

theorem isAccessibleTo_public_or_same_package:
  "(isAccessibleTo h C D \<longleftrightarrow>
      IsPublic (classes h C) \<or> GetPackageName (classes h C) = GetPackageName (classes h D))
   \<and> (CHR ''/'' \<notin> set (name c) \<longrightarrow> GetPackageName c = [])
   \<and> (CHR ''/'' \<in> set (name c) \<longrightarrow>
        (\<exists>rest. name c = GetPackageName c @ CHR ''/'' # rest \<and> CHR ''/'' \<notin> set rest))
   \<and> (CHR ''/'' \<notin> set (name (classes h C)) \<and> CHR ''/'' \<notin> set (name (classes h D)) \<longrightarrow>
        isAccessibleTo h C D \<and> isAccessibleTo h D C)"
proof (intro conjI impI)
  show "isAccessibleTo h C D \<longleftrightarrow>
      IsPublic (classes h C) \<or> GetPackageName (classes h C) = GetPackageName (classes h D)"
    by (simp add: isAccessibleTo_def)
next
  assume "CHR ''/'' \<notin> set (name c)"
  then show "GetPackageName c = []" by (rule GetPackageName_absent)
next
  assume "CHR ''/'' \<in> set (name c)"
  then show "\<exists>rest. name c = GetPackageName c @ CHR ''/'' # rest \<and> CHR ''/'' \<notin> set rest"
    by (rule GetPackageName_present)
next
  assume "CHR ''/'' \<notin> set (name (classes h C)) \<and> CHR ''/'' \<notin> set (name (classes h D))"
  then have "GetPackageName (classes h C) = []" and "GetPackageName (classes h D) = []"
    by (simp_all add: GetPackageName_absent)
  then show "isAccessibleTo h C D" and "isAccessibleTo h D C"
    by (simp_all add: isAccessibleTo_def)
qed

theorem isAccessibleTo_public_or_same_package_witness:
  "CHR ''/'' \<notin> set (name (classes exHeap 6)) \<and> CHR ''/'' \<notin> set (name (classes exHeap 7))
   \<and> \<not> IsPublic (classes exHeap 6) \<and> \<not> IsPublic (classes exHeap 7)
   \<and> isAccessibleTo exHeap 6 7 \<and> isAccessibleTo exHeap 7 6
   \<and> CHR ''/'' \<in> set (name (classes exHeap 2))
   \<and> name (classes exHeap 2) = ''q/B'' \<and> GetPackageName (classes exHeap 2) = ''q''
   \<and> \<not> isAccessibleTo exHeap 2 1 \<and> isAccessibleTo exHeap 2 3 \<and> isAccessibleTo exHeap 1 2"
proof -
  have n6: "CHR ''/'' \<notin> set (name (classes exHeap 6))"
    and n7: "CHR ''/'' \<notin> set (name (classes exHeap 7))"
    and n2: "CHR ''/'' \<in> set (name (classes exHeap 2))"
    and nm2: "name (classes exHeap 2) = ''q/B''"
    by (simp_all add: exHeap_def exClasses_def zeroClass_def)
  have np: "\<not> IsPublic (classes exHeap 6)" "\<not> IsPublic (classes exHeap 7)"
    "\<not> IsPublic (classes exHeap 2)" "IsPublic (classes exHeap 1)"
    by (simp_all add: exHeap_def exClasses_def zeroClass_def IsPublic_def ACC_PUBLIC_def)
  have mutual: "isAccessibleTo exHeap 6 7 \<and> isAccessibleTo exHeap 7 6"
    using isAccessibleTo_public_or_same_package [of exHeap 6 7 "classes exHeap 2"] n6 n7
    by blast
  obtain rest where rest: "''q/B'' = GetPackageName (classes exHeap 2) @ CHR ''/'' # rest"
      "CHR ''/'' \<notin> set rest"
    using isAccessibleTo_public_or_same_package [of exHeap 6 7 "classes exHeap 2"] n2 nm2
    by auto
  have pk2: "GetPackageName (classes exHeap 2) = ''q''"
    by (simp add: GetPackageName_def exHeap_def exClasses_def zeroClass_def)
  have pk: "GetPackageName (classes exHeap 1) = ''p''" "GetPackageName (classes exHeap 3) = ''q''"
    by (simp_all add: GetPackageName_def exHeap_def exClasses_def zeroClass_def)
  have acc: "\<not> isAccessibleTo exHeap 2 1" "isAccessibleTo exHeap 2 3" "isAccessibleTo exHeap 1 2"
    using isAccessibleTo_public_or_same_package [of exHeap 2 1 "classes exHeap 2"]
      isAccessibleTo_public_or_same_package [of exHeap 2 3 "classes exHeap 2"]
      isAccessibleTo_public_or_same_package [of exHeap 1 2 "classes exHeap 2"] np pk pk2
    by simp_all
  from n6 n7 n2 nm2 np mutual pk2 acc show ?thesis by simp
qed

subsection \<open>GetInstanceMethod\<close>

lemma find_app:
  "find P (xs @ ys) = (case find P xs of None \<Rightarrow> find P ys | Some x \<Rightarrow> Some x)"
  by (induction xs) auto

lemma getMethodLoop_chain:
  "superChain h c cs \<Longrightarrow>
     getMethodLoop h c nm d s =
       Some (find (\<lambda>m. member_IsStatic (methodObjs h m) = s \<and> member_name (methodObjs h m) = nm
                       \<and> member_descriptor (methodObjs h m) = d) (methodsOf h cs))"
proof (induction cs arbitrary: c)
  case Nil
  then show ?case by (simp add: getMethodLoop.simps methodsOf_def)
next
  case (Cons x xs)
  then have c: "c = Some x" and rest: "superChain h (superClass (classes h x)) xs" by simp_all
  show ?case
    using Cons.IH [OF rest] c
    by (subst getMethodLoop.simps) (simp add: methodsOf_def find_app split: option.split)
qed

lemma getFieldLoop_chain:
  "superChain h c cs \<Longrightarrow>
     getFieldLoop h c nm d s =
       Some (find (\<lambda>f. member_IsStatic (fieldObjs h f) = s \<and> member_name (fieldObjs h f) = nm
                       \<and> member_descriptor (fieldObjs h f) = d) (fieldsOf h cs))"
proof (induction cs arbitrary: c)
  case Nil
  then show ?case by (simp add: getFieldLoop.simps fieldsOf_def)
next
  case (Cons x xs)
  then have c: "c = Some x" and rest: "superChain h (superClass (classes h x)) xs" by simp_all
  show ?case
    using Cons.IH [OF rest] c
    by (subst getFieldLoop.simps) (simp add: fieldsOf_def find_app split: option.split)
qed

text \<open>
  Claim C7. When the superclass chain from \<open>C\<close> ends (\<open>cs\<close> is \<open>C\<close> followed by its
  ancestors, in superclass order), \<open>GetInstanceMethod(name, descriptor)\<close> returns, and
  what it returns is the first entry, in the method tables of \<open>cs\<close> laid end to end, that
  is not static and has this name and descriptor: entries before it either differ in name
  or descriptor or are static. It returns nil exactly when no entry of the whole chain
  passes the test; no path of it raises an error.
\<close>

theorem GetInstanceMethod_first_instance_match:
  assumes "superChain h (Some C) cs"
  shows "hd cs = C
    \<and> GetInstanceMethod h C nm d =
        Some (find (\<lambda>m. \<not> member_IsStatic (methodObjs h m) \<and> member_name (methodObjs h m) = nm
                        \<and> member_descriptor (methodObjs h m) = d) (methodsOf h cs))
    \<and> (GetInstanceMethod h C nm d = Some None \<longleftrightarrow>
         \<not> (\<exists>m \<in> set (methodsOf h cs). \<not> member_IsStatic (methodObjs h m)
               \<and> member_name (methodObjs h m) = nm \<and> member_descriptor (methodObjs h m) = d))
    \<and> (\<forall>m. GetInstanceMethod h C nm d = Some (Some m) \<longleftrightarrow>
         (\<exists>i < length (methodsOf h cs). methodsOf h cs ! i = m
            \<and> \<not> member_IsStatic (methodObjs h m)
            \<and> member_name (methodObjs h m) = nm \<and> member_descriptor (methodObjs h m) = d
            \<and> (\<forall>j < i. \<not> (\<not> member_IsStatic (methodObjs h (methodsOf h cs ! j))
                  \<and> member_name (methodObjs h (methodsOf h cs ! j)) = nm
                  \<and> member_descriptor (methodObjs h (methodsOf h cs ! j)) = d))))"
proof -
  from assms have hd: "hd cs = C" by (cases cs) simp_all
  have eq: "GetInstanceMethod h C nm d =
        Some (find (\<lambda>m. \<not> member_IsStatic (methodObjs h m) \<and> member_name (methodObjs h m) = nm
                        \<and> member_descriptor (methodObjs h m) = d) (methodsOf h cs))"
    using getMethodLoop_chain [OF assms, of nm d False]
    by (simp add: GetInstanceMethod_def getMethod_def)
  have none: "GetInstanceMethod h C nm d = Some None \<longleftrightarrow>
         \<not> (\<exists>m \<in> set (methodsOf h cs). \<not> member_IsStatic (methodObjs h m)
               \<and> member_name (methodObjs h m) = nm \<and> member_descriptor (methodObjs h m) = d)"
    unfolding eq by (auto simp: find_None_iff)
  have some: "GetInstanceMethod h C nm d = Some (Some m) \<longleftrightarrow>
         (\<exists>i < length (methodsOf h cs). methodsOf h cs ! i = m
            \<and> \<not> member_IsStatic (methodObjs h m)
            \<and> member_name (methodObjs h m) = nm \<and> member_descriptor (methodObjs h m) = d
            \<and> (\<forall>j < i. \<not> (\<not> member_IsStatic (methodObjs h (methodsOf h cs ! j))
                  \<and> member_name (methodObjs h (methodsOf h cs ! j)) = nm
                  \<and> member_descriptor (methodObjs h (methodsOf h cs ! j)) = d)))" for m
    unfolding eq by (auto simp: find_Some_iff)
  from hd eq none some show ?thesis by blast
qed

theorem GetInstanceMethod_first_instance_match_witness:
  "superChain exHeap (Some 2) [2, 1]
   \<and> GetInstanceMethod exHeap 2 ''run'' ''()V'' = Some (Some 11)
   \<and> GetInstanceMethod exHeap 2 ''none'' ''()V'' = Some None
   \<and> member_IsStatic (methodObjs exHeap 13) \<and> member_name (methodObjs exHeap 13) = ''run''
   \<and> member_descriptor (methodObjs exHeap 13) = ''()V'' \<and> 13 \<in> set (methods (classes exHeap 2))"
proof -
  have ch: "superChain exHeap (Some 2) [2, 1]"
    by (simp add: exHeap_def exClasses_def zeroClass_def)
  have ms: "methodsOf exHeap [2, 1] = [13, 17, 10, 11, 12]"
    by (simp add: methodsOf_def exHeap_def exClasses_def zeroClass_def)
  have objs: "methodObjs exHeap = exMethods" by (simp add: exHeap_def)
  have eq: "GetInstanceMethod exHeap 2 nm d =
      Some (find (\<lambda>m. \<not> member_IsStatic (exMethods m) \<and> member_name (exMethods m) = nm
                      \<and> member_descriptor (exMethods m) = d) [13, 17, 10, 11, 12])" for nm d
    using GetInstanceMethod_first_instance_match [OF ch, of nm d] unfolding ms objs by blast
  have a: "GetInstanceMethod exHeap 2 ''run'' ''()V'' = Some (Some 11)"
    unfolding eq by (simp add: exMethods_def member_IsStatic_def ACC_STATIC_def)
  have b: "GetInstanceMethod exHeap 2 ''none'' ''()V'' = Some None"
    unfolding eq by (simp add: exMethods_def member_IsStatic_def ACC_STATIC_def)
  have c: "member_IsStatic (methodObjs exHeap 13) \<and> member_name (methodObjs exHeap 13) = ''run''
   \<and> member_descriptor (methodObjs exHeap 13) = ''()V'' \<and> 13 \<in> set (methods (classes exHeap 2))"
    by (simp add: exHeap_def exClasses_def zeroClass_def exMethods_def member_IsStatic_def ACC_STATIC_def)
  from ch a b c show ?thesis by simp
qed

subsection \<open>GetMainMethod and GetClinitMethod\<close>

text \<open>
  Claim C10. \<open>GetMainMethod\<close> and \<open>GetClinitMethod\<close> are a scan of the receiver's own
  method table. When that table has no static method with the conventional name and
  descriptor, they return nil, and their result is the same in every store in which the
  receiver's own table and the methods in it are the same, whatever its superclass is
  and declares.
\<close>

theorem getStaticMethod_own_table_only:
  "((\<forall>m \<in> set (methods (classes h C)).
        \<not> (member_IsStatic (methodObjs h m) \<and> member_name (methodObjs h m) = ''main''
           \<and> member_descriptor (methodObjs h m) = ''([Ljava/lang/String;)V''))
      \<longrightarrow> GetMainMethod h C = None)
   \<and> ((\<forall>m \<in> set (methods (classes h C)).
        \<not> (member_IsStatic (methodObjs h m) \<and> member_name (methodObjs h m) = ''<clinit>''
           \<and> member_descriptor (methodObjs h m) = ''()V''))
      \<longrightarrow> GetClinitMethod h C = None)
   \<and> (methods (classes h' C) = methods (classes h C)
        \<and> (\<forall>m \<in> set (methods (classes h C)). methodObjs h' m = methodObjs h m)
      \<longrightarrow> GetMainMethod h' C = GetMainMethod h C \<and> GetClinitMethod h' C = GetClinitMethod h C)"
proof (intro conjI impI)
  assume "\<forall>m \<in> set (methods (classes h C)).
        \<not> (member_IsStatic (methodObjs h m) \<and> member_name (methodObjs h m) = ''main''
           \<and> member_descriptor (methodObjs h m) = ''([Ljava/lang/String;)V'')"
  then show "GetMainMethod h C = None"
    unfolding GetMainMethod_def getStaticMethod_def find_None_iff by blast
next
  assume "\<forall>m \<in> set (methods (classes h C)).
        \<not> (member_IsStatic (methodObjs h m) \<and> member_name (methodObjs h m) = ''<clinit>''
           \<and> member_descriptor (methodObjs h m) = ''()V'')"
  then show "GetClinitMethod h C = None"
    unfolding GetClinitMethod_def getStaticMethod_def find_None_iff by blast
next
  assume same: "methods (classes h' C) = methods (classes h C)
        \<and> (\<forall>m \<in> set (methods (classes h C)). methodObjs h' m = methodObjs h m)"
  have "getStaticMethod h' C nm d = getStaticMethod h C nm d" for nm d
    unfolding getStaticMethod_def using same by (auto intro: find_cong)
  then show "GetMainMethod h' C = GetMainMethod h C" and "GetClinitMethod h' C = GetClinitMethod h C"
    by (simp_all add: GetMainMethod_def GetClinitMethod_def)
qed

theorem getStaticMethod_own_table_only_witness:
  "methods (classes exHeap 2) = [13, 17]
   \<and> member_name (methodObjs exHeap 13) = ''run'' \<and> member_name (methodObjs exHeap 17) = ''go''
   \<and> GetMainMethod exHeap 2 = None \<and> GetClinitMethod exHeap 2 = None
   \<and> superClass (classes exHeap 2) = Some 1
   \<and> GetMainMethod exHeap 1 = Some 10 \<and> GetClinitMethod exHeap 1 = Some 12
   \<and> getMethod exHeap 2 ''main'' ''([Ljava/lang/String;)V'' True = Some (Some 10)
   \<and> getMethod exHeap 2 ''<clinit>'' ''()V'' True = Some (Some 12)
   \<and> getField exHeap 2 ''out'' ''Ljava/io/PrintStream;'' True = Some (Some 20)
   \<and> GetMainMethod (exHeap\<lparr>classes := (classes exHeap)(2 := (classes exHeap 2)\<lparr>superClass := None\<rparr>)\<rparr>) 2
        = GetMainMethod exHeap 2
   \<and> GetClinitMethod (exHeap\<lparr>classes := (classes exHeap)(2 := (classes exHeap 2)\<lparr>superClass := None\<rparr>)\<rparr>) 2
        = GetClinitMethod exHeap 2"
proof -
  let ?h' = "exHeap\<lparr>classes := (classes exHeap)(2 := (classes exHeap 2)\<lparr>superClass := None\<rparr>)\<rparr>"
  have same: "methods (classes ?h' 2) = methods (classes exHeap 2)
        \<and> (\<forall>m \<in> set (methods (classes exHeap 2)). methodObjs ?h' m = methodObjs exHeap m)"
    by simp
  have indep: "GetMainMethod ?h' 2 = GetMainMethod exHeap 2"
    "GetClinitMethod ?h' 2 = GetClinitMethod exHeap 2"
    using getStaticMethod_own_table_only [of exHeap 2 ?h'] same by blast+
  have tab: "methods (classes exHeap 2) = [13, 17]" "methods (classes exHeap 1) = [10, 11, 12]"
    "superClass (classes exHeap 2) = Some 1" "methodObjs exHeap = exMethods"
    "fieldObjs exHeap = exFields"
    by (simp_all add: exHeap_def exClasses_def zeroClass_def)
  have nomain: "\<forall>m \<in> set (methods (classes exHeap 2)).
        \<not> (member_IsStatic (methodObjs exHeap m) \<and> member_name (methodObjs exHeap m) = ''main''
           \<and> member_descriptor (methodObjs exHeap m) = ''([Ljava/lang/String;)V'')"
    by (simp add: tab exMethods_def)
  have noclinit: "\<forall>m \<in> set (methods (classes exHeap 2)).
        \<not> (member_IsStatic (methodObjs exHeap m) \<and> member_name (methodObjs exHeap m) = ''<clinit>''
           \<and> member_descriptor (methodObjs exHeap m) = ''()V'')"
    by (simp add: tab exMethods_def)
  have none: "GetMainMethod exHeap 2 = None" "GetClinitMethod exHeap 2 = None"
    using getStaticMethod_own_table_only [of exHeap 2 exHeap] nomain noclinit by blast+
  have own: "GetMainMethod exHeap 1 = Some 10" "GetClinitMethod exHeap 1 = Some 12"
    unfolding GetMainMethod_def GetClinitMethod_def getStaticMethod_def tab
    by (simp_all add: exMethods_def member_IsStatic_def ACC_STATIC_def)
  have ch: "superChain exHeap (Some 2) [2, 1]"
    by (simp add: exHeap_def exClasses_def zeroClass_def)
  have ms: "methodsOf exHeap [2, 1] = [13, 17, 10, 11, 12]" "fieldsOf exHeap [2, 1] = [20]"
    by (simp_all add: methodsOf_def fieldsOf_def exHeap_def exClasses_def zeroClass_def)
  have walk: "getMethod exHeap 2 ''main'' ''([Ljava/lang/String;)V'' True = Some (Some 10)"
    "getMethod exHeap 2 ''<clinit>'' ''()V'' True = Some (Some 12)"
    unfolding getMethod_def getMethodLoop_chain [OF ch] ms tab
    by (simp_all add: exMethods_def member_IsStatic_def ACC_STATIC_def)
  have fld: "getField exHeap 2 ''out'' ''Ljava/io/PrintStream;'' True = Some (Some 20)"
    unfolding getField_def getFieldLoop_chain [OF ch] ms tab
    by (simp add: exFields_def member_IsStatic_def ACC_STATIC_def)
  have nms: "member_name (methodObjs exHeap 13) = ''run''" "member_name (methodObjs exHeap 17) = ''go''"
    by (simp_all add: tab exMethods_def)
  from tab(1,3) nms none own walk fld indep show ?thesis by blast
qed

subsection \<open>GetRefVar and SetRefVar\<close>



lemma exHeap_sel:
  "classes exHeap = exClasses" "methodObjs exHeap = exMethods" "fieldObjs exHeap = exFields"
  "slotArrays exHeap = exSlots" "methodRefs exHeap = exRefs"
  by (simp_all add: exHeap_def)

lemma exHeap_chains:
  "superChain exHeap (Some 1) [1]" "superChain exHeap (Some 2) [2, 1]"
  "superChain exHeap (Some 8) [8, 1]"
  by (simp_all add: exHeap_def exClasses_def zeroClass_def)

lemma exHeap_edges: "(2, 1) \<in> (superEdge exHeap)\<^sup>*" "(8, 1) \<in> (superEdge exHeap)\<^sup>*"
proof -
  have "(2, 1) \<in> superEdge exHeap" "(8, 1) \<in> superEdge exHeap"
    by (simp_all add: superEdge_def exHeap_def exClasses_def zeroClass_def)
  then show "(2, 1) \<in> (superEdge exHeap)\<^sup>*" "(8, 1) \<in> (superEdge exHeap)\<^sup>*" by blast+
qed

lemma exHeap_out_field:
  "20 \<in> set (class_fields (classes exHeap 1))" "member_IsStatic (fieldObjs exHeap 20)"
  "member_name (fieldObjs exHeap 20) = ''out''"
  "member_descriptor (fieldObjs exHeap 20) = ''Ljava/io/PrintStream;''"
  "slotId (fieldObjs exHeap 20) = 0"
  by (simp_all add: exHeap_def exClasses_def zeroClass_def exFields_def member_IsStatic_def
      ACC_STATIC_def)

lemma exHeap_getField_out:
  "getField exHeap 2 ''out'' ''Ljava/io/PrintStream;'' True = Some (Some 20)"
  "getField exHeap 8 ''out'' ''Ljava/io/PrintStream;'' True = Some (Some 20)"
proof -
  have fs: "fieldsOf exHeap [2, 1] = [20]" "fieldsOf exHeap [8, 1] = [21, 20]"
    by (simp_all add: fieldsOf_def exHeap_def exClasses_def zeroClass_def)
  show "getField exHeap 2 ''out'' ''Ljava/io/PrintStream;'' True = Some (Some 20)"
    unfolding getField_def getFieldLoop_chain [OF exHeap_chains(2)] fs exHeap_sel
    by (simp add: exFields_def member_IsStatic_def ACC_STATIC_def)
  show "getField exHeap 8 ''out'' ''Ljava/io/PrintStream;'' True = Some (Some 20)"
    unfolding getField_def getFieldLoop_chain [OF exHeap_chains(3)] fs exHeap_sel
    by (simp add: exFields_def member_IsStatic_def ACC_STATIC_def)
qed

text \<open>
  Claim C8. The claim is that, a matching static field existing in the class or its
  superclass chain, \<open>GetRefVar\<close> and \<open>SetRefVar\<close> never fail and read and write the located
  field's storage slot. The code finds the field by a walk up the superclass chain, but
  then applies its \<open>slotId\<close> to the receiver's own \<open>staticVars\<close>, not to those of the class
  that declares the field. Here is the code on an inherited static field. Class 8 extends
  class 1; the field \<open>out\<close> is declared by class 1, in slot 0 of class 1's storage, which
  holds reference 51; class 8 declares \<open>err\<close>, in slot 0 of its own storage, which holds
  reference 50. \<open>GetRefVar\<close> for \<open>out\<close> on class 8 finds field 20 of class 1 and returns
  50, the value of \<open>err\<close>; \<open>SetRefVar\<close> overwrites the slot of \<open>err\<close> and leaves the slot
  of \<open>out\<close> as it was. Class 2 extends class 1 too and has no static storage: both calls
  find the field and panic with an index out of range.
\<close>

theorem RefVar_inherited_static_field_slot:
  "(8, 1) \<in> (superEdge exHeap)\<^sup>* \<and> 20 \<in> set (class_fields (classes exHeap 1))
   \<and> member_IsStatic (fieldObjs exHeap 20) \<and> member_name (fieldObjs exHeap 20) = ''out''
   \<and> member_descriptor (fieldObjs exHeap 20) = ''Ljava/io/PrintStream;''
   \<and> member_class (fieldObjs exHeap 20) = 1 \<and> slotId (fieldObjs exHeap 20) = 0
   \<and> staticVars (classes exHeap 1) = Some 31
   \<and> ref (slotArrays exHeap 31 ! slotId (fieldObjs exHeap 20)) = Some 51
   \<and> getField exHeap 8 ''out'' ''Ljava/io/PrintStream;'' True = Some (Some 20)
   \<and> GetRefVar exHeap 8 ''out'' ''Ljava/io/PrintStream;'' = Some (Inr (Some 50))
   \<and> class_fields (classes exHeap 8) = [21] \<and> member_name (fieldObjs exHeap 21) = ''err''
   \<and> slotId (fieldObjs exHeap 21) = 0 \<and> staticVars (classes exHeap 8) = Some 33
   \<and> ref (slotArrays exHeap 33 ! slotId (fieldObjs exHeap 21)) = Some 50
   \<and> SetRefVar exHeap 8 ''out'' ''Ljava/io/PrintStream;'' (Some 99)
        = Some (None, exHeap\<lparr>slotArrays := (slotArrays exHeap)(33 := [\<lparr>num = 0, ref = Some 99\<rparr>])\<rparr>)
   \<and> (2, 1) \<in> (superEdge exHeap)\<^sup>*
   \<and> getField exHeap 2 ''out'' ''Ljava/io/PrintStream;'' True = Some (Some 20)
   \<and> staticVars (classes exHeap 2) = None
   \<and> GetRefVar exHeap 2 ''out'' ''Ljava/io/PrintStream;'' = Some (Inl IndexOutOfRange)
   \<and> SetRefVar exHeap 2 ''out'' ''Ljava/io/PrintStream;'' (Some 99)
        = Some (Some IndexOutOfRange, exHeap)"
proof -
  let ?d = "''Ljava/io/PrintStream;''"
  have f20: "member_class (fieldObjs exHeap 20) = 1"
    and f21: "member_name (fieldObjs exHeap 21) = ''err''" "slotId (fieldObjs exHeap 21) = 0"
    by (simp_all add: exHeap_def exFields_def)
  have cls: "staticVars (classes exHeap 1) = Some 31" "staticVars (classes exHeap 8) = Some 33"
    "staticVars (classes exHeap 2) = None" "class_fields (classes exHeap 8) = [21]"
    by (simp_all add: exHeap_def exClasses_def zeroClass_def)
  have arr: "slotArrays exHeap 31 = [\<lparr>num = 7, ref = Some 51\<rparr>]"
    "slotArrays exHeap 33 = [\<lparr>num = 0, ref = Some 50\<rparr>]"
    by (simp_all add: exHeap_def exSlots_def)
  have own: "ref (slotArrays exHeap 31 ! slotId (fieldObjs exHeap 20)) = Some 51"
    "ref (slotArrays exHeap 33 ! slotId (fieldObjs exHeap 21)) = Some 50"
    by (simp_all add: arr exHeap_out_field f21)
  have get8: "GetRefVar exHeap 8 ''out'' ?d = Some (Inr (Some 50))"
    by (simp add: GetRefVar_def exHeap_getField_out cls Slots_GetRef_def exHeap_out_field arr)
  have set8: "SetRefVar exHeap 8 ''out'' ?d (Some 99)
        = Some (None, exHeap\<lparr>slotArrays := (slotArrays exHeap)(33 := [\<lparr>num = 0, ref = Some 99\<rparr>])\<rparr>)"
    by (simp add: SetRefVar_def exHeap_getField_out cls Slots_SetRef_def exHeap_out_field arr)
  have get2: "GetRefVar exHeap 2 ''out'' ?d = Some (Inl IndexOutOfRange)"
    by (simp add: GetRefVar_def exHeap_getField_out cls Slots_GetRef_def)
  have set2: "SetRefVar exHeap 2 ''out'' ?d (Some 99) = Some (Some IndexOutOfRange, exHeap)"
    by (simp add: SetRefVar_def exHeap_getField_out cls Slots_SetRef_def)
  from exHeap_edges exHeap_out_field f20 f21 cls own exHeap_getField_out get8 set8 get2 set2
  show ?thesis by blast
qed



section \<open>Properties of cp\_methodref.go\<close>

lemma LookupMethodInClassLoop_chain:
  "superChain h c cs \<Longrightarrow>
     LookupMethodInClassLoop h c nm d =
       Some (find (\<lambda>m. member_name (methodObjs h m) = nm \<and> member_descriptor (methodObjs h m) = d)
                  (methodsOf h cs))"
proof (induction cs arbitrary: c)
  case Nil
  then show ?case by (simp add: LookupMethodInClassLoop.simps methodsOf_def)
next
  case (Cons x xs)
  then have c: "c = Some x" and rest: "superChain h (superClass (classes h x)) xs" by simp_all
  show ?case
    using Cons.IH [OF rest] c
    by (subst LookupMethodInClassLoop.simps) (simp add: methodsOf_def find_app split: option.split)
qed

lemma methodsOf_append: "methodsOf h (xs @ ys) = methodsOf h xs @ methodsOf h ys"
  by (simp add: methodsOf_def)

lemma methodsOf_Cons: "methodsOf h (x # xs) = methods (classes h x) @ methodsOf h xs"
  by (simp add: methodsOf_def)

lemma lookupMethodInInterface_order:
  "ifaceOrder h ifaces out \<Longrightarrow>
     lookupMethodInInterface h ifaces nm d =
       Some (find (\<lambda>m. member_name (methodObjs h m) = nm \<and> member_descriptor (methodObjs h m) = d)
                  (methodsOf h out))"
proof (induction rule: ifaceOrder.induct)
  case (ifaceOrder_Nil h)
  show ?case by (subst lookupMethodInInterface.simps) (simp add: methodsOf_def)
next
  case (ifaceOrder_Cons h iface supers rest others)
  show ?case
    by (subst lookupMethodInInterface.simps)
      (simp add: ifaceOrder_Cons.IH methodsOf_Cons methodsOf_append find_app split: option.split)
qed

lemma lookupMethod_in_chain:
  assumes "superChain h (Some c) cs"
    and "find (\<lambda>m. member_name (methodObjs h m) = nm \<and> member_descriptor (methodObjs h m) = d)
              (methodsOf h cs) = Some m"
  shows "lookupMethod h c nm d = Some (Some m)"
  using assms by (simp add: lookupMethod_def LookupMethodInClass_def LookupMethodInClassLoop_chain)

lemma lookupMethod_order:
  assumes "superChain h (Some c) cs" and "ifaceOrder h (interfaces (classes h c)) ifs"
  shows "lookupMethod h c nm d =
       Some (find (\<lambda>m. member_name (methodObjs h m) = nm \<and> member_descriptor (methodObjs h m) = d)
                  (methodsOf h (cs @ ifs)))"
  using assms
  by (simp add: lookupMethod_def LookupMethodInClass_def LookupMethodInClassLoop_chain
      lookupMethodInInterface_order methodsOf_append find_app split: option.split)

lemma resolveMethodRef_Inl:
  "ResolvedClass h self = (Inl e, h1) \<Longrightarrow>
     resolveMethodRef ResolvedClass acc h self = Some (Some e, h1)"
  by (simp add: resolveMethodRef_def)

lemma resolveMethodRef_interface:
  "ResolvedClass h self = (Inr c, h1) \<Longrightarrow> IsInterface (classes h1 c) \<Longrightarrow>
     resolveMethodRef ResolvedClass acc h self = Some (Some IncompatibleClassChangeError, h1)"
  by (simp add: resolveMethodRef_def)

lemma resolveMethodRef_failure:
  assumes "resolveMethodRef ResolvedClass acc h self = Some (Some e, h')"
  shows "h' = snd (ResolvedClass h self)
    \<and> (fst (ResolvedClass h self) = Inl e
        \<or> (\<exists>c. fst (ResolvedClass h self) = Inr c)
           \<and> e \<in> {IncompatibleClassChangeError, NoSuchMethodError, IllegalAccessError})"
proof (cases "ResolvedClass h self")
  case (Pair res h1)
  show ?thesis
  proof (cases res)
    case (Inl e')
    with Pair assms show ?thesis by (simp add: resolveMethodRef_def)
  next
    case (Inr c)
    with Pair assms show ?thesis
      by (auto simp: resolveMethodRef_def split: if_splits option.splits Option.bind_splits)
  qed
qed

lemma resolveMethodRef_success:
  assumes "resolveMethodRef ResolvedClass acc h self = Some (None, h')"
  shows "\<exists>m. ref_method (methodRefs h' self) = Some m"
proof (cases "ResolvedClass h self")
  case (Pair res h1)
  with assms show ?thesis
    by (cases res)
      (auto simp: resolveMethodRef_def set_ref_method_def
        split: if_splits option.splits Option.bind_splits)
qed

lemma set_ref_class_sel [simp]:
  "classes (set_ref_class h r c) = classes h"
  "methodObjs (set_ref_class h r c) = methodObjs h"
  "fieldObjs (set_ref_class h r c) = fieldObjs h"
  "slotArrays (set_ref_class h r c) = slotArrays h"
  "ref_method (methodRefs (set_ref_class h r c) q) = ref_method (methodRefs h q)"
  "ref_name (methodRefs (set_ref_class h r c) q) = ref_name (methodRefs h q)"
  "ref_descriptor (methodRefs (set_ref_class h r c) q) = ref_descriptor (methodRefs h q)"
  "cp_class (methodRefs (set_ref_class h r c) q) = cp_class (methodRefs h q)"
  "className (methodRefs (set_ref_class h r c) q) = className (methodRefs h q)"
  "ref_class (methodRefs (set_ref_class h r c) q) = (if q = r then c else ref_class (methodRefs h q))"
  by (simp_all add: set_ref_class_def)

lemma set_ref_method_sel [simp]:
  "classes (set_ref_method h r m) = classes h"
  "methodObjs (set_ref_method h r m) = methodObjs h"
  "fieldObjs (set_ref_method h r m) = fieldObjs h"
  "slotArrays (set_ref_method h r m) = slotArrays h"
  "ref_method (methodRefs (set_ref_method h r m) q) = (if q = r then m else ref_method (methodRefs h q))"
  "ref_name (methodRefs (set_ref_method h r m) q) = ref_name (methodRefs h q)"
  "ref_descriptor (methodRefs (set_ref_method h r m) q) = ref_descriptor (methodRefs h q)"
  "cp_class (methodRefs (set_ref_method h r m) q) = cp_class (methodRefs h q)"
  "className (methodRefs (set_ref_method h r m) q) = className (methodRefs h q)"
  "ref_class (methodRefs (set_ref_method h r m) q) = ref_class (methodRefs h q)"
  by (simp_all add: set_ref_method_def)

lemma exResolvedClass_keeps_methods:
  "ref_method (methodRefs (snd (exResolvedClass h r)) q) = ref_method (methodRefs h q)"
  by (simp add: exResolvedClass_def split: option.split)

lemma exRefs_sel:
  "exRefs 40 = \<lparr>cp_class = 2, className = ''q/B'', ref_class = None, ref_name = ''deep'',
             ref_descriptor = ''()V'', ref_method = None\<rparr>"
  "exRefs 41 = \<lparr>cp_class = 2, className = ''q/I'', ref_class = None, ref_name = ''hello'',
             ref_descriptor = ''()V'', ref_method = None\<rparr>"
  "exRefs 42 = \<lparr>cp_class = 2, className = ''q/B'', ref_class = None, ref_name = ''none'',
             ref_descriptor = ''()V'', ref_method = None\<rparr>"
  by (simp_all add: exRefs_def)

lemma exRegistry_sel:
  "exRegistry ''q/B'' = Some 2" "exRegistry ''q/I'' = Some 3"
  by (simp_all add: exRegistry_def)

lemma exResolvedClass_fresh:
  assumes "methodRefs h r = exRefs r" and "r = 40 \<or> r = 42"
  shows "exResolvedClass h r = (Inr 2, set_ref_class h r (Some 2))"
  using assms by (auto simp: exResolvedClass_def exRefs_sel exRegistry_sel)

lemma exResolvedClass_41:
  assumes "methodRefs h 41 = exRefs 41"
  shows "exResolvedClass h 41 = (Inr 3, set_ref_class h 41 (Some 3))"
  using assms by (simp add: exResolvedClass_def exRefs_sel exRegistry_sel)

lemma ex_graph:
  assumes "classes h = exClasses"
  shows "superChain h (Some 2) [2, 1]" and "ifaceOrder h (interfaces (classes h 2)) [3, 4]"
    and "\<not> IsInterface (classes h 2)" and "IsInterface (classes h 3)"
    and "methodsOf h ([2, 1] @ [3, 4]) = [13, 17, 10, 11, 12, 14, 15, 16]"
    and "methods (classes h 3) = [14]"
proof -
  show "superChain h (Some 2) [2, 1]"
    by (simp add: assms exClasses_def zeroClass_def)
  have e4: "interfaces (classes h 4) = []" and e3: "interfaces (classes h 3) = [4]"
    and e2: "interfaces (classes h 2) = [3]"
    by (simp_all add: assms exClasses_def zeroClass_def)
  have "ifaceOrder h (interfaces (classes h 4)) []" unfolding e4 by (rule ifaceOrder_Nil)
  from ifaceOrder_Cons [OF this ifaceOrder_Nil] have "ifaceOrder h [4] [4]" by simp
  then have "ifaceOrder h (interfaces (classes h 3)) [4]" by (simp add: e3)
  from ifaceOrder_Cons [OF this ifaceOrder_Nil] have "ifaceOrder h [3] [3, 4]" by simp
  then show "ifaceOrder h (interfaces (classes h 2)) [3, 4]" by (simp add: e2)
  show "\<not> IsInterface (classes h 2)" "IsInterface (classes h 3)"
    by (simp_all add: assms exClasses_def zeroClass_def IsInterface_def ACC_INTERFACE_def)
  show "methodsOf h ([2, 1] @ [3, 4]) = [13, 17, 10, 11, 12, 14, 15, 16]"
    "methods (classes h 3) = [14]"
    by (simp_all add: methodsOf_def assms exClasses_def zeroClass_def)
qed

lemma ex_sig:
  "find (\<lambda>m. member_name (exMethods m) = ''run'' \<and> member_descriptor (exMethods m) = ''()V'')
        [13, 17, 10, 11, 12, 14, 15, 16] = Some 13"
  "find (\<lambda>m. member_name (exMethods m) = ''hello'' \<and> member_descriptor (exMethods m) = ''()V'')
        [13, 17, 10, 11, 12, 14, 15, 16] = Some 14"
  "find (\<lambda>m. member_name (exMethods m) = ''deep'' \<and> member_descriptor (exMethods m) = ''()V'')
        [13, 17, 10, 11, 12, 14, 15, 16] = Some 16"
  "find (\<lambda>m. member_name (exMethods m) = ''none'' \<and> member_descriptor (exMethods m) = ''()V'')
        [13, 17, 10, 11, 12, 14, 15, 16] = None"
  "find (\<lambda>m. member_name (exMethods m) = ''hello'' \<and> member_descriptor (exMethods m) = ''()V'')
        [14] = Some 14"
  by (simp_all add: exMethods_def)

lemma exHeap40_sel:
  "classes exHeap40 = exClasses" "methodObjs exHeap40 = exMethods"
  "ref_name (methodRefs exHeap40 40) = ''deep''" "ref_descriptor (methodRefs exHeap40 40) = ''()V''"
  "cp_class (methodRefs exHeap 40) = 2" "methodRefs exHeap 40 = exRefs 40"
  by (simp_all add: exHeap40_def exHeap_def exRefs_sel)

lemma exHeap42_sel:
  "classes exHeap42 = exClasses" "methodObjs exHeap42 = exMethods"
  "ref_name (methodRefs exHeap42 42) = ''none''" "ref_descriptor (methodRefs exHeap42 42) = ''()V''"
  "methodRefs exHeap 42 = exRefs 42"
  by (simp_all add: exHeap42_def exHeap_def exRefs_sel)

lemma exMemberAccess_16: "methodObjs h = exMethods \<Longrightarrow> exMemberAccess h 16 d"
  by (simp add: exMemberAccess_def exMethods_def ACC_PUBLIC_def)

lemma exHeapResolved_sel:
  "classes exHeapResolved = exClasses" "methodObjs exHeapResolved = exMethods"
  "methodRefs exHeapResolved 42 = exRefs 42"
  "ref_method (methodRefs exHeapResolved 40) = Some 16"
  "ref_method (methodRefs exHeapResolved 42) = None"
  by (simp_all add: exHeapResolved_def exHeap40_def exHeap_def exRefs_sel set_ref_method_def
      set_ref_class_def)

lemma resolveMethodRef_success_store:
  assumes "resolveMethodRef ResolvedClass acc h self = Some (None, h')"
  shows "\<exists>m. h' = set_ref_method (snd (ResolvedClass h self)) self (Some m)"
proof (cases "ResolvedClass h self")
  case (Pair res h1)
  with assms show ?thesis
    by (cases res)
      (auto simp: resolveMethodRef_def split: if_splits option.splits Option.bind_splits)
qed

lemma ResolvedMethod_keeps_cached:
  assumes cached: "ref_method (methodRefs h2 self) = Some m"
    and keeps: "\<forall>p. ref_method (methodRefs (snd (ResolvedClass h2 q)) p) = ref_method (methodRefs h2 p)"
    and run: "ResolvedMethod ResolvedClass acc h2 q = Some (res, h3)"
  shows "ref_method (methodRefs h3 self) = Some m"
proof (cases "ref_method (methodRefs h2 q)")
  case (Some m')
  with run have "h3 = h2" by (simp add: ResolvedMethod_def)
  with cached show ?thesis by simp
next
  case None
  with cached have neq: "self \<noteq> q" by auto
  from None run obtain e where r: "resolveMethodRef ResolvedClass acc h2 q = Some (e, h3)"
    by (auto simp: ResolvedMethod_def split: Option.bind_splits option.splits)
  show ?thesis
  proof (cases e)
    case None
    from resolveMethodRef_success_store [OF r [unfolded None]] obtain m'
      where "h3 = set_ref_method (snd (ResolvedClass h2 q)) q (Some m')" by blast
    with neq keeps cached show ?thesis by simp
  next
    case (Some err)
    from resolveMethodRef_failure [OF r [unfolded Some]] have "h3 = snd (ResolvedClass h2 q)"
      by simp
    with keeps cached show ?thesis by simp
  qed
qed

lemma exHeapResolved_42_fails:
  "resolveMethodRef exResolvedClass exMemberAccess exHeapResolved 42
      = Some (Some NoSuchMethodError, set_ref_class exHeapResolved 42 (Some 2))"
proof -
  let ?h' = "set_ref_class exHeapResolved 42 (Some 2)"
  have rc: "exResolvedClass exHeapResolved 42 = (Inr 2, ?h')"
    by (rule exResolvedClass_fresh) (simp_all add: exHeapResolved_sel)
  have sel: "classes ?h' = exClasses" "methodObjs ?h' = exMethods"
    "ref_name (methodRefs ?h' 42) = ''none''" "ref_descriptor (methodRefs ?h' 42) = ''()V''"
    by (simp_all add: exHeapResolved_sel exRefs_sel)
  note g = ex_graph [OF sel(1)]
  have "lookupMethod ?h' 2 ''none'' ''()V'' = Some None"
    unfolding lookupMethod_order [OF g(1,2)] g(5) sel ex_sig ..
  with rc g(3) sel(3,4) show ?thesis
    by (simp add: resolveMethodRef_def)
qed

text \<open>
  Claim C1. Let the class \<open>c\<close> named by the reference not be an interface, and let its
  superclass chain end (\<open>cs\<close> is \<open>c\<close> followed by its ancestors). A method with the name
  and descriptor in the method tables of \<open>cs\<close> is found there, first table first, whatever
  the interfaces are. When the walk through the interfaces of \<open>c\<close> ends too (\<open>ifs\<close>: each
  direct interface, followed by its own super-interfaces depth-first, before the next),
  \<open>lookupMethod\<close> returns the first method with the name and descriptor in the tables of
  \<open>cs\<close> followed by those of \<open>ifs\<close>. When there is none, resolution fails with
  \<open>NoSuchMethodError\<close>; when there is one, resolution goes on to the access check with it,
  and caches it on the reference when the check passes.
\<close>

theorem resolveMethodRef_search_order:
  assumes "ResolvedClass h self = (Inr c, h1)"
    and "\<not> IsInterface (classes h1 c)"
    and "superChain h1 (Some c) cs"
  shows "(\<forall>m. find (\<lambda>m. member_name (methodObjs h1 m) = nm \<and> member_descriptor (methodObjs h1 m) = d)
                (methodsOf h1 cs) = Some m
            \<longrightarrow> lookupMethod h1 c nm d = Some (Some m))
    \<and> (ifaceOrder h1 (interfaces (classes h1 c)) ifs \<longrightarrow>
         lookupMethod h1 c nm d =
           Some (find (\<lambda>m. member_name (methodObjs h1 m) = nm \<and> member_descriptor (methodObjs h1 m) = d)
                      (methodsOf h1 (cs @ ifs)))
         \<and> (find (\<lambda>m. member_name (methodObjs h1 m) = ref_name (methodRefs h1 self)
                      \<and> member_descriptor (methodObjs h1 m) = ref_descriptor (methodRefs h1 self))
                  (methodsOf h1 (cs @ ifs)) = None
             \<longrightarrow> resolveMethodRef ResolvedClass acc h self = Some (Some NoSuchMethodError, h1))
         \<and> (\<forall>m. find (\<lambda>m. member_name (methodObjs h1 m) = ref_name (methodRefs h1 self)
                      \<and> member_descriptor (methodObjs h1 m) = ref_descriptor (methodRefs h1 self))
                  (methodsOf h1 (cs @ ifs)) = Some m
             \<longrightarrow> resolveMethodRef ResolvedClass acc h self =
                   Some (if acc h1 m (cp_class (methodRefs h self))
                         then (None, set_ref_method h1 self (Some m))
                         else (Some IllegalAccessError, h1))))"
proof (intro conjI impI allI)
  fix m
  assume "find (\<lambda>m. member_name (methodObjs h1 m) = nm \<and> member_descriptor (methodObjs h1 m) = d)
                (methodsOf h1 cs) = Some m"
  with assms(3) show "lookupMethod h1 c nm d = Some (Some m)" by (rule lookupMethod_in_chain)
next
  assume io: "ifaceOrder h1 (interfaces (classes h1 c)) ifs"
  from assms(3) io show "lookupMethod h1 c nm d =
           Some (find (\<lambda>m. member_name (methodObjs h1 m) = nm \<and> member_descriptor (methodObjs h1 m) = d)
                      (methodsOf h1 (cs @ ifs)))"
    by (rule lookupMethod_order)
next
  assume io: "ifaceOrder h1 (interfaces (classes h1 c)) ifs"
    and no: "find (\<lambda>m. member_name (methodObjs h1 m) = ref_name (methodRefs h1 self)
                      \<and> member_descriptor (methodObjs h1 m) = ref_descriptor (methodRefs h1 self))
                  (methodsOf h1 (cs @ ifs)) = None"
  have "lookupMethod h1 c (ref_name (methodRefs h1 self)) (ref_descriptor (methodRefs h1 self))
      = Some None"
    unfolding lookupMethod_order [OF assms(3) io] no ..
  with assms(1,2)
  show "resolveMethodRef ResolvedClass acc h self = Some (Some NoSuchMethodError, h1)"
    by (simp add: resolveMethodRef_def)
next
  fix m
  assume io: "ifaceOrder h1 (interfaces (classes h1 c)) ifs"
    and yes: "find (\<lambda>m. member_name (methodObjs h1 m) = ref_name (methodRefs h1 self)
                      \<and> member_descriptor (methodObjs h1 m) = ref_descriptor (methodRefs h1 self))
                  (methodsOf h1 (cs @ ifs)) = Some m"
  have "lookupMethod h1 c (ref_name (methodRefs h1 self)) (ref_descriptor (methodRefs h1 self))
      = Some (Some m)"
    unfolding lookupMethod_order [OF assms(3) io] yes ..
  with assms(1,2)
  show "resolveMethodRef ResolvedClass acc h self =
                   Some (if acc h1 m (cp_class (methodRefs h self))
                         then (None, set_ref_method h1 self (Some m))
                         else (Some IllegalAccessError, h1))"
    by (simp add: resolveMethodRef_def)
qed

theorem resolveMethodRef_search_order_witness:
  "exResolvedClass exHeap 40 = (Inr 2, exHeap40)
   \<and> \<not> IsInterface (classes exHeap40 2)
   \<and> superChain exHeap40 (Some 2) [2, 1]
   \<and> ifaceOrder exHeap40 (interfaces (classes exHeap40 2)) [3, 4]
   \<and> lookupMethod exHeap40 2 ''run'' ''()V'' = Some (Some 13)
   \<and> lookupMethod exHeap40 2 ''hello'' ''()V'' = Some (Some 14)
   \<and> lookupMethod exHeap40 2 ''deep'' ''()V'' = Some (Some 16)
   \<and> resolveMethodRef exResolvedClass exMemberAccess exHeap 40
        = Some (None, set_ref_method exHeap40 40 (Some 16))
   \<and> exResolvedClass exHeap 42 = (Inr 2, exHeap42)
   \<and> resolveMethodRef exResolvedClass exMemberAccess exHeap 42
        = Some (Some NoSuchMethodError, exHeap42)"
proof -
  have rc40: "exResolvedClass exHeap 40 = (Inr 2, exHeap40)"
    unfolding exHeap40_def by (rule exResolvedClass_fresh) (simp_all add: exHeap_def)
  have rc42: "exResolvedClass exHeap 42 = (Inr 2, exHeap42)"
    unfolding exHeap42_def by (rule exResolvedClass_fresh) (simp_all add: exHeap_def)
  note g40 = ex_graph [OF exHeap40_sel(1)]
  note g42 = ex_graph [OF exHeap42_sel(1)]
  note t40 = resolveMethodRef_search_order [where ResolvedClass = exResolvedClass
      and acc = exMemberAccess and h = exHeap and self = 40 and ifs = "[3, 4]",
      OF rc40 g40(3) g40(1)]
  note t42 = resolveMethodRef_search_order [where ResolvedClass = exResolvedClass
      and acc = exMemberAccess and h = exHeap and self = 42 and ifs = "[3, 4]",
      OF rc42 g42(3) g42(1)]
  have lk: "lookupMethod exHeap40 2 nm d =
      Some (find (\<lambda>m. member_name (exMethods m) = nm \<and> member_descriptor (exMethods m) = d)
                 [13, 17, 10, 11, 12, 14, 15, 16])" for nm d
    using t40 [of nm d] g40(2) unfolding g40(5) exHeap40_sel by blast
  have inchain: "find (\<lambda>m. member_name (methodObjs exHeap40 m) = ''run''
                   \<and> member_descriptor (methodObjs exHeap40 m) = ''()V'')
             (methodsOf exHeap40 [2, 1]) = Some 13"
    by (simp add: methodsOf_def exHeap40_sel exClasses_def zeroClass_def exMethods_def)
  have run13: "lookupMethod exHeap40 2 ''run'' ''()V'' = Some (Some 13)"
    using t40 [of "''run''" "''()V''"] inchain by blast
  have r40: "resolveMethodRef exResolvedClass exMemberAccess exHeap 40
        = Some (None, set_ref_method exHeap40 40 (Some 16))"
    using t40 [of "''deep''" "''()V''"] g40(2) ex_sig(3) exMemberAccess_16 [OF exHeap40_sel(2)]
    unfolding g40(5) exHeap40_sel by simp
  have r42: "resolveMethodRef exResolvedClass exMemberAccess exHeap 42
        = Some (Some NoSuchMethodError, exHeap42)"
    using t42 [of "''none''" "''()V''"] g42(2) ex_sig(4)
    unfolding g42(5) exHeap42_sel by simp
  from rc40 rc42 g40(1,2,3) run13 lk [of "''hello''" "''()V''"]
    lk [of "''deep''" "''()V''"] r40 r42
  show ?thesis unfolding ex_sig by blast
qed

text \<open>
  Claim C3. When the class named by a method reference is an interface, resolution fails
  with \<open>IncompatibleClassChangeError\<close>: the method tables are not consulted, so the name
  and descriptor of the reference play no part.
\<close>

theorem resolveMethodRef_interface_target:
  assumes "ResolvedClass h self = (Inr c, h1)" and "IsInterface (classes h1 c)"
  shows "resolveMethodRef ResolvedClass acc h self = Some (Some IncompatibleClassChangeError, h1)
    \<and> (ref_method (methodRefs h self) = None \<longrightarrow>
         ResolvedMethod ResolvedClass acc h self = Some (Inl IncompatibleClassChangeError, h1))"
  using assms by (simp add: ResolvedMethod_def resolveMethodRef_interface)

theorem resolveMethodRef_interface_target_witness:
  "exResolvedClass exHeap 41 = (Inr 3, exHeap41)
   \<and> IsInterface (classes exHeap41 3)
   \<and> ref_name (methodRefs exHeap 41) = ''hello'' \<and> ref_descriptor (methodRefs exHeap 41) = ''()V''
   \<and> find (\<lambda>m. member_name (methodObjs exHeap41 m) = ''hello''
                \<and> member_descriptor (methodObjs exHeap41 m) = ''()V'')
            (methods (classes exHeap41 3)) = Some 14
   \<and> ref_method (methodRefs exHeap 41) = None
   \<and> resolveMethodRef exResolvedClass exMemberAccess exHeap 41
        = Some (Some IncompatibleClassChangeError, exHeap41)
   \<and> ResolvedMethod exResolvedClass exMemberAccess exHeap 41
        = Some (Inl IncompatibleClassChangeError, exHeap41)"
proof -
  have rc: "exResolvedClass exHeap 41 = (Inr 3, exHeap41)"
    unfolding exHeap41_def by (rule exResolvedClass_41) (simp add: exHeap_def)
  have sel: "classes exHeap41 = exClasses" "methodObjs exHeap41 = exMethods"
    by (simp_all add: exHeap41_def exHeap_def)
  note g = ex_graph [OF sel(1)]
  have r: "ref_name (methodRefs exHeap 41) = ''hello''"
    "ref_descriptor (methodRefs exHeap 41) = ''()V''" "ref_method (methodRefs exHeap 41) = None"
    by (simp_all add: exHeap_def exRefs_sel)
  have there: "find (\<lambda>m. member_name (methodObjs exHeap41 m) = ''hello''
                \<and> member_descriptor (methodObjs exHeap41 m) = ''()V'')
            (methods (classes exHeap41 3)) = Some 14"
    unfolding g(6) sel(2) by (rule ex_sig(5))
  from resolveMethodRef_interface_target [where ResolvedClass = exResolvedClass
      and acc = exMemberAccess and h = exHeap and self = 41, OF rc g(4)] r(3)
  have "resolveMethodRef exResolvedClass exMemberAccess exHeap 41
        = Some (Some IncompatibleClassChangeError, exHeap41)"
    and "ResolvedMethod exResolvedClass exMemberAccess exHeap 41
        = Some (Inl IncompatibleClassChangeError, exHeap41)"
    by blast+
  with rc g(4) r there show ?thesis by blast
qed

text \<open>
  Claim C4. A failed \<open>resolveMethodRef\<close> leaves the store exactly as \<open>ResolvedClass\<close> left
  it: the failure is the panic of \<open>ResolvedClass\<close> or one of the three panics of
  \<open>resolveMethodRef\<close> itself, all raised before the only write, the one to the method
  cache of the reference. So, \<open>ResolvedClass\<close> not touching the method caches, the cache of
  the failing reference and that of every other reference are as before.
\<close>

theorem resolveMethodRef_failure_keeps_caches:
  "resolveMethodRef ResolvedClass acc h self = Some (Some e, h') \<longrightarrow>
     h' = snd (ResolvedClass h self)
     \<and> (fst (ResolvedClass h self) = Inl e
        \<or> (\<exists>c. fst (ResolvedClass h self) = Inr c)
           \<and> e \<in> {IncompatibleClassChangeError, NoSuchMethodError, IllegalAccessError})
     \<and> ((\<forall>q. ref_method (methodRefs (snd (ResolvedClass h self)) q) = ref_method (methodRefs h q))
         \<longrightarrow> ref_method (methodRefs h' self) = ref_method (methodRefs h self)
             \<and> (\<forall>q. ref_method (methodRefs h' q) = ref_method (methodRefs h q)))"
  using resolveMethodRef_failure [of ResolvedClass acc h self e h'] by auto

theorem resolveMethodRef_failure_keeps_caches_witness:
  "resolveMethodRef exResolvedClass exMemberAccess exHeapResolved 42
      = Some (Some NoSuchMethodError, set_ref_class exHeapResolved 42 (Some 2))
   \<and> (\<forall>q. ref_method (methodRefs (snd (exResolvedClass exHeapResolved 42)) q)
           = ref_method (methodRefs exHeapResolved q))
   \<and> ref_method (methodRefs exHeapResolved 40) = Some 16
   \<and> ref_method (methodRefs (set_ref_class exHeapResolved 42 (Some 2)) 40) = Some 16
   \<and> ref_method (methodRefs exHeapResolved 42) = None
   \<and> ref_method (methodRefs (set_ref_class exHeapResolved 42 (Some 2)) 42) = None"
proof -
  let ?h' = "set_ref_class exHeapResolved 42 (Some 2)"
  note run = exHeapResolved_42_fails
  have keeps: "\<forall>q. ref_method (methodRefs (snd (exResolvedClass exHeapResolved 42)) q)
           = ref_method (methodRefs exHeapResolved q)"
    by (simp add: exResolvedClass_keeps_methods)
  from resolveMethodRef_failure_keeps_caches [of exResolvedClass exMemberAccess exHeapResolved 42
      NoSuchMethodError ?h'] run keeps
  have same: "\<forall>q. ref_method (methodRefs ?h' q) = ref_method (methodRefs exHeapResolved q)"
    by blast
  from same exHeapResolved_sel(4,5)
  have "ref_method (methodRefs ?h' 40) = Some 16" "ref_method (methodRefs ?h' 42) = None"
    by simp_all
  with run keeps exHeapResolved_sel(4,5) show ?thesis by blast
qed

text \<open>
  Claim C2. When \<open>ResolvedMethod\<close> succeeds it returns a method (not nil) that is then
  cached on the reference, and in every later store in which the reference still holds
  that cache, however the classes, methods and the rest have changed, and whatever the
  class resolver and the access check would now answer, \<open>ResolvedMethod\<close> returns the
  same method pointer and leaves the store as it is. The cache is kept by every call of
  \<open>ResolvedMethod\<close>, on this or on any other reference, successful or not (the class
  resolver not touching the method caches), so every later call finds it.
\<close>

theorem ResolvedMethod_cache_stable:
  assumes "ResolvedMethod ResolvedClass acc h self = Some (Inr r, h1)"
  shows "\<exists>m. r = Some m \<and> ref_method (methodRefs h1 self) = Some m
    \<and> (\<forall>h2 ResolvedClass' acc'. ref_method (methodRefs h2 self) = Some m \<longrightarrow>
          ResolvedMethod ResolvedClass' acc' h2 self = Some (Inr (Some m), h2))
    \<and> (\<forall>h2 ResolvedClass' acc' q res h3.
          ref_method (methodRefs h2 self) = Some m
          \<and> (\<forall>p. ref_method (methodRefs (snd (ResolvedClass' h2 q)) p)
                   = ref_method (methodRefs h2 p))
          \<and> ResolvedMethod ResolvedClass' acc' h2 q = Some (res, h3)
          \<longrightarrow> ref_method (methodRefs h3 self) = Some m)"
proof -
  have cached: "ResolvedMethod ResolvedClass' acc' h2 self = Some (Inr (Some m), h2)"
    if "ref_method (methodRefs h2 self) = Some m" for h2 ResolvedClass' acc' m
    using that by (simp add: ResolvedMethod_def)
  have "\<exists>m. r = Some m \<and> ref_method (methodRefs h1 self) = Some m"
  proof (cases "ref_method (methodRefs h self)")
    case None
    with assms obtain e where run: "resolveMethodRef ResolvedClass acc h self = Some (e, h1)"
      and res: "(case e of Some err \<Rightarrow> Inl err | None \<Rightarrow> Inr (ref_method (methodRefs h1 self))) = Inr r"
      by (auto simp: ResolvedMethod_def split: Option.bind_splits option.splits)
    from res have e: "e = None" and r: "r = ref_method (methodRefs h1 self)"
      by (auto split: option.splits)
    from resolveMethodRef_success [OF run [unfolded e]] r show ?thesis by auto
  next
    case (Some m)
    with assms have "r = Some m" and "h1 = h" by (simp_all add: ResolvedMethod_def)
    with Some show ?thesis by simp
  qed
  with cached ResolvedMethod_keeps_cached show ?thesis by blast
qed

theorem ResolvedMethod_cache_stable_witness:
  "ResolvedMethod exResolvedClass exMemberAccess exHeap 40 = Some (Inr (Some 16), exHeapResolved)
   \<and> ref_method (methodRefs (exHeapResolved\<lparr>classes := \<lambda>_. zeroClass\<rparr>) 40) = Some 16
   \<and> ResolvedMethod exResolvedClass exMemberAccess (exHeapResolved\<lparr>classes := \<lambda>_. zeroClass\<rparr>) 40
        = Some (Inr (Some 16), exHeapResolved\<lparr>classes := \<lambda>_. zeroClass\<rparr>)
   \<and> lookupMethod (exHeapResolved\<lparr>classes := \<lambda>_. zeroClass\<rparr>) 2 ''deep'' ''()V'' = Some None
   \<and> (\<forall>p. ref_method (methodRefs (snd (exResolvedClass exHeapResolved 42)) p)
           = ref_method (methodRefs exHeapResolved p))
   \<and> ResolvedMethod exResolvedClass exMemberAccess exHeapResolved 42
        = Some (Inl NoSuchMethodError, set_ref_class exHeapResolved 42 (Some 2))
   \<and> ref_method (methodRefs (set_ref_class exHeapResolved 42 (Some 2)) 40) = Some 16"
proof -
  let ?h2 = "exHeapResolved\<lparr>classes := \<lambda>_. zeroClass\<rparr>"
  have rc40: "exResolvedClass exHeap 40 = (Inr 2, exHeap40)"
    unfolding exHeap40_def by (rule exResolvedClass_fresh) (simp_all add: exHeap_def)
  note g40 = ex_graph [OF exHeap40_sel(1)]
  have "lookupMethod exHeap40 2 ''deep'' ''()V'' = Some (Some 16)"
    unfolding lookupMethod_order [OF g40(1,2)] g40(5) exHeap40_sel ex_sig ..
  with rc40 g40(3) exMemberAccess_16 [OF exHeap40_sel(2)]
  have "resolveMethodRef exResolvedClass exMemberAccess exHeap 40 = Some (None, exHeapResolved)"
    by (simp add: resolveMethodRef_def exHeap40_sel exHeapResolved_def)
  then have first: "ResolvedMethod exResolvedClass exMemberAccess exHeap 40
      = Some (Inr (Some 16), exHeapResolved)"
    by (simp add: ResolvedMethod_def exHeap40_sel exRefs_sel exHeapResolved_sel)
  have cache: "ref_method (methodRefs ?h2 40) = Some 16"
    by (simp add: exHeapResolved_sel)
  from ResolvedMethod_cache_stable [OF first] cache
  have second: "ResolvedMethod exResolvedClass exMemberAccess ?h2 40 = Some (Inr (Some 16), ?h2)"
    by auto
  have ch: "superChain ?h2 (Some 2) [2]" by (simp add: zeroClass_def)
  have io: "ifaceOrder ?h2 (interfaces (classes ?h2 2)) []"
    by (simp add: zeroClass_def ifaceOrder_Nil)
  have gone: "lookupMethod ?h2 2 ''deep'' ''()V'' = Some None"
    unfolding lookupMethod_order [OF ch io] by (simp add: methodsOf_def zeroClass_def)
  have keeps: "\<forall>p. ref_method (methodRefs (snd (exResolvedClass exHeapResolved 42)) p)
           = ref_method (methodRefs exHeapResolved p)"
    by (simp add: exResolvedClass_keeps_methods)
  have other: "ResolvedMethod exResolvedClass exMemberAccess exHeapResolved 42
        = Some (Inl NoSuchMethodError, set_ref_class exHeapResolved 42 (Some 2))"
    by (simp add: ResolvedMethod_def exHeapResolved_sel(5) exHeapResolved_42_fails)
  from ResolvedMethod_cache_stable [OF first] exHeapResolved_sel(4) keeps other
  have kept: "ref_method (methodRefs (set_ref_class exHeapResolved 42 (Some 2)) 40) = Some 16"
    by blast
  from first cache second gone keeps other kept show ?thesis by blast
qed

end
